theory Spec2Isabelle
  imports Complex_Main
begin

section \<open>Library functions the client calls\<close>

text \<open>
  The client is written against Go's standard library. The pure string functions it
  calls (\<open>strings.TrimRight\<close>, \<open>strconv.Atoi\<close>, \<open>strconv.FormatBool\<close>,
  \<open>filepath.Base\<close>, the \<open>%d\<close> verb of \<open>fmt.Sprintf\<close>) are written out here.
  A Go \<open>string\<close> is a byte sequence, as \<open>string\<close> is here; \<open>int\<close> is
  the 64-bit signed integer, modelled as \<open>int\<close> with the range check written out
  where a conversion can overflow.
\<close>

subsection \<open>strings.TrimRight\<close>

definition TrimRight :: "string \<Rightarrow> string \<Rightarrow> string" where
  "TrimRight s cutset = rev (dropWhile (\<lambda>c. c \<in> set cutset) (rev s))"

subsection \<open>Decimal rendering and parsing of integers\<close>

definition digit_char :: "nat \<Rightarrow> char" where
  "digit_char d = ''0123456789'' ! (d mod 10)"

function FormatUint :: "nat \<Rightarrow> string" where
  "FormatUint n = (if n < 10 then [digit_char n] else FormatUint (n div 10) @ [digit_char (n mod 10)])"
  by pat_completeness auto
termination
  by (relation "measure id") auto

declare FormatUint.simps [simp del]

definition Itoa :: "int \<Rightarrow> string" where
  "Itoa i = (if i < 0 then CHR ''-'' # FormatUint (nat (- i)) else FormatUint (nat i))"

definition digit_val :: "char \<Rightarrow> nat option" where
  "digit_val c = map_of (zip ''0123456789'' [0, 1, 2, 3, 4, 5, 6, 7, 8, 9]) c"

fun parse_digits :: "nat \<Rightarrow> string \<Rightarrow> nat option" where
  "parse_digits acc [] = Some acc"
| "parse_digits acc (c # cs) =
     (case digit_val c of None \<Rightarrow> None | Some d \<Rightarrow> parse_digits (acc * 10 + d) cs)"

definition ParseUint :: "string \<Rightarrow> nat option" where
  "ParseUint s = (if s = [] then None else parse_digits 0 s)"

text \<open>
  \<open>strconv.Atoi\<close>: an optional sign, then one or more decimal digits and nothing
  else; a value outside the 64-bit range is an error as well. \<open>None\<close> is the
  error return.
\<close>

definition Atoi :: "string \<Rightarrow> int option" where
  "Atoi s =
     (case s of
        [] \<Rightarrow> None
      | c # cs \<Rightarrow>
          if c = CHR ''-'' then
            (case ParseUint cs of
               None \<Rightarrow> None
             | Some n \<Rightarrow> if n \<le> 2 ^ 63 then Some (- int n) else None)
          else
            (case ParseUint (if c = CHR ''+'' then cs else s) of
               None \<Rightarrow> None
             | Some n \<Rightarrow> if n < 2 ^ 63 then Some (int n) else None))"

definition FormatBool :: "bool \<Rightarrow> string" where
  "FormatBool b = (if b then ''true'' else ''false'')"

subsection \<open>filepath.Base (Unix separators)\<close>

definition Base :: "string \<Rightarrow> string" where
  "Base path =
     (if path = [] then ''.''
      else let p = TrimRight path ''/'' in
        if p = [] then ''/''
        else rev (takeWhile (\<lambda>c. c \<noteq> CHR ''/'') (rev p)))"

subsection \<open>Case folding of JSON keys\<close>

text \<open>
  \<open>encoding/json\<close> compares an object key with a field name under Unicode simple
  case folding. For the field names of this package, which are ASCII, that is: letter
  case is ignored, and the two characters outside ASCII that fold to an ASCII letter
  count as that letter, U+017F (long s, the bytes C5 BF in UTF-8) as \<open>s\<close> and U+212A
  (the Kelvin sign, the bytes E2 84 AA) as \<open>k\<close>. \<open>fold_key\<close> maps a key to the
  lower-case ASCII name it is compared as; every other byte stays as it is and so
  equals no letter of a field name.
\<close>

definition lower_char :: "char \<Rightarrow> char" where
  "lower_char c =
     (case map_of (zip ''ABCDEFGHIJKLMNOPQRSTUVWXYZ'' ''abcdefghijklmnopqrstuvwxyz'') c of
        Some l \<Rightarrow> l
      | None \<Rightarrow> c)"

fun fold_key :: "string \<Rightarrow> string" where
  "fold_key (a # b # c # cs) =
     (if a = CHR 0xE2 \<and> b = CHR 0x84 \<and> c = CHR 0xAA then CHR ''k'' # fold_key cs
      else if a = CHR 0xC5 \<and> b = CHR 0xBF then CHR ''s'' # fold_key (c # cs)
      else lower_char a # fold_key (b # c # cs))"
| "fold_key [a, b] =
     (if a = CHR 0xC5 \<and> b = CHR 0xBF then ''s'' else [lower_char a, lower_char b])"
| "fold_key [a] = [lower_char a]"
| "fold_key [] = []"

section \<open>JSON values and decoding (encoding/json)\<close>

text \<open>
  A response body is a byte string. Its syntax analysis is the environment's
  (\<open>ParseJSON\<close> below); what \<open>json.Unmarshal\<close> then stores in a target of a given Go
  type is written out here. A number keeps its literal, since the target type decides
  how it is converted.
\<close>

datatype json =
    JNull
  | JBool bool
  | JNumber string
  | JString string
  | JArray "json list"
  | JObject "(string \<times> json) list"

text \<open>
  A value of type \<open>interface{}\<close> as the decoder builds it: \<open>nil\<close>, \<open>bool\<close>,
  \<open>float64\<close>, \<open>string\<close>, \<open>[]interface{}\<close> or \<open>map[string]interface{}\<close>.
  A \<open>float64\<close> is represented by the real number it denotes.
\<close>

datatype iface =
    INil
  | IBool bool
  | IFloat64 real
  | IString string
  | ISlice "iface list"
  | IMap "string \<Rightarrow> iface option"

type_synonym gomap = "string \<Rightarrow> iface option"

text \<open>
  Decoding into \<open>interface{}\<close>. \<open>pf\<close> is \<open>strconv.ParseFloat\<close>; a literal it
  rejects (a number too large for a \<open>float64\<close>) is stored as \<open>nil\<close> and reported
  as a type error by \<open>iface_error\<close>. A repeated key keeps its last value.
\<close>

primrec valueInterface :: "(string \<Rightarrow> real option) \<Rightarrow> json \<Rightarrow> iface" where
  "valueInterface pf JNull = INil"
| "valueInterface pf (JBool b) = IBool b"
| "valueInterface pf (JNumber l) = (case pf l of None \<Rightarrow> INil | Some r \<Rightarrow> IFloat64 r)"
| "valueInterface pf (JString s) = IString s"
| "valueInterface pf (JArray vs) = ISlice (map (valueInterface pf) vs)"
| "valueInterface pf (JObject kvs) =
     IMap (map_of (rev (map (map_prod id (valueInterface pf)) kvs)))"

primrec literals :: "json \<Rightarrow> string list" where
  "literals JNull = []"
| "literals (JBool b) = []"
| "literals (JNumber l) = [l]"
| "literals (JString s) = []"
| "literals (JArray vs) = concat (map literals vs)"
| "literals (JObject kvs) = concat (map snd (map (map_prod id literals) kvs))"


section \<open>Errors (errors.go)\<close>

text \<open>
  A Go type as \<open>reflect.Type\<close> describes it, for the type a decoding error reports:
  a named type by its qualified name, a struct type without a name by its fields, each
  with its type and its tag.
\<close>

datatype gotype =
    TBool
  | TInt
  | TFloat64
  | TString
  | TInterface
  | TSlice gotype
  | TMap gotype gotype
  | TPointer gotype
  | TNamed string
  | TStruct "(string \<times> gotype \<times> string) list"

record Error =
  Message :: string
  StatusCode :: int
  ResponseData :: "gomap option"

text \<open>
  The five typed errors embed \<open>Error\<close>. The remaining constructors are the errors of
  the standard library that the client passes on, bare or wrapped by \<open>fmt.Errorf\<close>
  with a prefix.
\<close>

datatype error =
    AuthenticationError Error
  | InsufficientCreditsError Error
  | RateLimitError Error int
  | ValidationError Error
  | APIError Error
  | Errorf string error
  | OSError string
  | NetError string
  | URLError string
  | MarshalError string
  | SyntaxError string
  | UnmarshalTypeError string gotype

definition NewAuthenticationError :: "string \<Rightarrow> int \<Rightarrow> gomap option \<Rightarrow> error" where
  "NewAuthenticationError message statusCode responseData =
     AuthenticationError
       \<lparr>Message = message, StatusCode = statusCode, ResponseData = responseData\<rparr>"

definition NewInsufficientCreditsError :: "string \<Rightarrow> int \<Rightarrow> gomap option \<Rightarrow> error" where
  "NewInsufficientCreditsError message statusCode responseData =
     InsufficientCreditsError
       \<lparr>Message = message, StatusCode = statusCode, ResponseData = responseData\<rparr>"

definition NewRateLimitError :: "int \<Rightarrow> int \<Rightarrow> gomap option \<Rightarrow> error" where
  "NewRateLimitError retryAfter statusCode responseData =
     RateLimitError
       \<lparr>Message = ''Rate limit exceeded. Retry after '' @ Itoa retryAfter @ '' seconds'',
        StatusCode = statusCode, ResponseData = responseData\<rparr>
       retryAfter"

definition NewValidationError :: "string \<Rightarrow> int \<Rightarrow> gomap option \<Rightarrow> error" where
  "NewValidationError message statusCode responseData =
     ValidationError
       \<lparr>Message = message, StatusCode = statusCode, ResponseData = responseData\<rparr>"

definition NewAPIError :: "string \<Rightarrow> int \<Rightarrow> gomap option \<Rightarrow> error" where
  "NewAPIError message statusCode responseData =
     APIError
       \<lparr>Message = message, StatusCode = statusCode, ResponseData = responseData\<rparr>"

text \<open>A Go call either returns or panics; a panic unwinds through every caller.\<close>

datatype 'a go = Panics string | Returns 'a

section \<open>Decoding into typed targets\<close>

text \<open>
  \<open>json.Unmarshal\<close> stores into a target that already holds a value, keeps going after
  a type error and returns the first one. A decoder takes the JSON value and the
  target's current value and returns the new value and the type error, if any. Of
  the fields of \<open>UnmarshalTypeError\<close> the description of the JSON value and the Go
  type are kept; a number that does not fit a numeric type is described with its
  literal.
\<close>

type_synonym 'a dec = "json \<Rightarrow> 'a \<Rightarrow> 'a \<times> error option"

definition saveError :: "error option \<Rightarrow> error option \<Rightarrow> error option" where
  "saveError saved new = (case saved of None \<Rightarrow> new | Some e \<Rightarrow> Some e)"

definition json_kind :: "json \<Rightarrow> string" where
  "json_kind j =
     (case j of
        JNull \<Rightarrow> ''null''
      | JBool b \<Rightarrow> ''bool''
      | JNumber l \<Rightarrow> ''number''
      | JString s \<Rightarrow> ''string''
      | JArray vs \<Rightarrow> ''array''
      | JObject kvs \<Rightarrow> ''object'')"

definition type_error :: "json \<Rightarrow> gotype \<Rightarrow> error option" where
  "type_error j ty = Some (UnmarshalTypeError (json_kind j) ty)"

definition decString :: "string dec" where
  "decString j cur =
     (case j of
        JString s \<Rightarrow> (s, None)
      | JNull \<Rightarrow> (cur, None)
      | _ \<Rightarrow> (cur, type_error j TString))"

definition decBool :: "bool dec" where
  "decBool j cur =
     (case j of
        JBool b \<Rightarrow> (b, None)
      | JNull \<Rightarrow> (cur, None)
      | _ \<Rightarrow> (cur, type_error j TBool))"

definition decInt :: "int dec" where
  "decInt j cur =
     (case j of
        JNumber l \<Rightarrow>
          (case Atoi l of
             Some n \<Rightarrow> (n, None)
           | None \<Rightarrow> (cur, Some (UnmarshalTypeError (''number '' @ l) TInt)))
      | JNull \<Rightarrow> (cur, None)
      | _ \<Rightarrow> (cur, type_error j TInt))"

definition decFloat64 :: "(string \<Rightarrow> real option) \<Rightarrow> real dec" where
  "decFloat64 pf j cur =
     (case j of
        JNumber l \<Rightarrow>
          (case pf l of
             Some x \<Rightarrow> (x, None)
           | None \<Rightarrow> (cur, Some (UnmarshalTypeError (''number '' @ l) TFloat64)))
      | JNull \<Rightarrow> (cur, None)
      | _ \<Rightarrow> (cur, type_error j TFloat64))"

text \<open>
  A slice target: element \<open>i\<close> of the array is decoded into the slice's element \<open>i\<close>
  when it has one and into a zero element otherwise; \<open>null\<close> makes the slice
  \<open>nil\<close> (\<open>None\<close>).
\<close>

fun decElems :: "'a \<Rightarrow> 'a dec \<Rightarrow> json list \<Rightarrow> 'a list \<Rightarrow> 'a list \<times> error option" where
  "decElems zero d [] cur = ([], None)"
| "decElems zero d (v # vs) cur =
     (case d v (case cur of [] \<Rightarrow> zero | c # cs \<Rightarrow> c) of
        (x, e) \<Rightarrow>
          (case decElems zero d vs (tl cur) of
             (xs, e') \<Rightarrow> (x # xs, saveError e e')))"

definition decSlice :: "gotype \<Rightarrow> 'a \<Rightarrow> 'a dec \<Rightarrow> 'a list option dec" where
  "decSlice ty zero d j cur =
     (case j of
        JArray vs \<Rightarrow>
          (case decElems zero d vs (case cur of None \<Rightarrow> [] | Some xs \<Rightarrow> xs) of
             (xs, e) \<Rightarrow> (Some xs, e))
      | JNull \<Rightarrow> (None, None)
      | _ \<Rightarrow> (cur, type_error j ty))"

text \<open>
  A struct target: the members of the object are taken in order and each is handed to
  the struct's field decoder, which ignores a key that names no field. \<open>null\<close>
  leaves a struct as it is.
\<close>

fun decMembers ::
  "(string \<Rightarrow> json \<Rightarrow> 'a \<Rightarrow> 'a \<times> error option) \<Rightarrow> (string \<times> json) list \<Rightarrow> 'a \<Rightarrow> 'a \<times> error option"
where
  "decMembers f [] r = (r, None)"
| "decMembers f (kv # kvs) r =
     (case f (fst kv) (snd kv) r of
        (r', e) \<Rightarrow>
          (case decMembers f kvs r' of
             (r'', e') \<Rightarrow> (r'', saveError e e')))"

definition decStruct ::
  "gotype \<Rightarrow> (string \<Rightarrow> json \<Rightarrow> 'a \<Rightarrow> 'a \<times> error option) \<Rightarrow> 'a dec"
where
  "decStruct ty f j r =
     (case j of
        JObject kvs \<Rightarrow> decMembers f kvs r
      | JNull \<Rightarrow> (r, None)
      | _ \<Rightarrow> (r, type_error j ty))"

text \<open>
  A pointer target: \<open>null\<close> makes it \<open>nil\<close>; any other value allocates a zero
  pointee when the pointer is \<open>nil\<close> and is decoded into the pointee.
\<close>

definition decPointer :: "'a \<Rightarrow> 'a dec \<Rightarrow> 'a option dec" where
  "decPointer zero d j p =
     (case j of
        JNull \<Rightarrow> (None, None)
      | _ \<Rightarrow>
          (case d j (case p of None \<Rightarrow> zero | Some x \<Rightarrow> x) of
             (x, e) \<Rightarrow> (Some x, e)))"

text \<open>Targets of the untyped kinds: \<open>interface{}\<close>, \<open>map[string]interface{}\<close>
  and \<open>[]interface{}\<close>.\<close>

definition iface_error :: "(string \<Rightarrow> real option) \<Rightarrow> json \<Rightarrow> error option" where
  "iface_error pf j =
     (case filter (\<lambda>l. pf l = None) (literals j) of
        [] \<Rightarrow> None
      | l # ls \<Rightarrow> Some (UnmarshalTypeError (''number '' @ l) TFloat64))"

definition decInterface :: "(string \<Rightarrow> real option) \<Rightarrow> iface dec" where
  "decInterface pf j cur = (valueInterface pf j, iface_error pf j)"

definition decMap :: "(string \<Rightarrow> real option) \<Rightarrow> gomap option dec" where
  "decMap pf j cur =
     (case j of
        JObject kvs \<Rightarrow>
          (Some ((case cur of None \<Rightarrow> Map.empty | Some m \<Rightarrow> m) ++
                 map_of (rev (map (map_prod id (valueInterface pf)) kvs))),
           iface_error pf j)
      | JNull \<Rightarrow> (None, None)
      | _ \<Rightarrow> (cur, type_error j (TMap TString TInterface)))"

definition decInterfaceSlice :: "(string \<Rightarrow> real option) \<Rightarrow> iface list option dec" where
  "decInterfaceSlice pf j cur =
     (case j of
        JArray vs \<Rightarrow> (Some (map (valueInterface pf) vs), iface_error pf j)
      | JNull \<Rightarrow> (None, None)
      | _ \<Rightarrow> (cur, type_error j (TSlice TInterface)))"


section \<open>Request and response types (client.go)\<close>

text \<open>
  Field names carry a prefix for their struct, since several structs have fields of
  the same name. A \<open>[]string\<close> that may be \<open>nil\<close> and a pointer are options.
\<close>

record VerifyRequest =
  VQ_Email :: string
  VQ_Timeout :: "int option"
  VQ_SMTPCheck :: bool

record VerifyResponse =
  VR_Email :: string
  VR_Result :: string
  VR_Reason :: string
  VR_Disposable :: bool
  VR_Role :: bool
  VR_Free :: bool
  VR_Score :: real
  VR_SMTPProvider :: string
  VR_MXRecords :: "string list option"
  VR_Domain :: string
  VR_SpamTrap :: bool
  VR_MXFound :: bool

record BatchRequest =
  BQ_Emails :: "string list option"
  BQ_Name :: string
  BQ_CallbackURL :: string
  BQ_AutoStart :: bool

record BatchResponse =
  BR_ID :: int
  BR_Status :: string
  BR_TotalEmails :: int
  BR_CreatedAt :: string

record BatchStatusResponse =
  BS_ID :: int
  BS_Status :: string
  BS_Progress :: int
  BS_TotalEmails :: int
  BS_ProcessedEmails :: int
  BS_ValidEmails :: int
  BS_InvalidEmails :: int
  BS_UnknownEmails :: int

record FindEmailRequest =
  FQ_FirstName :: string
  FQ_LastName :: string
  FQ_Domain :: string

definition zeroVerifyResponse :: VerifyResponse where
  "zeroVerifyResponse =
     \<lparr>VR_Email = [], VR_Result = [], VR_Reason = [], VR_Disposable = False, VR_Role = False,
      VR_Free = False, VR_Score = 0, VR_SMTPProvider = [], VR_MXRecords = None, VR_Domain = [],
      VR_SpamTrap = False, VR_MXFound = False\<rparr>"

definition zeroBatchResponse :: BatchResponse where
  "zeroBatchResponse = \<lparr>BR_ID = 0, BR_Status = [], BR_TotalEmails = 0, BR_CreatedAt = []\<rparr>"

definition zeroBatchStatusResponse :: BatchStatusResponse where
  "zeroBatchStatusResponse =
     \<lparr>BS_ID = 0, BS_Status = [], BS_Progress = 0, BS_TotalEmails = 0, BS_ProcessedEmails = 0,
      BS_ValidEmails = 0, BS_InvalidEmails = 0, BS_UnknownEmails = 0\<rparr>"

subsection \<open>The structs' \<open>json\<close> tags on decoding\<close>

text \<open>
  A key selects the field whose tag it equals after folding (no two tags of a struct
  are equal after folding, so the decoder's preference for an exact match changes
  nothing).
\<close>

definition VerifyResponse_field ::
  "(string \<Rightarrow> real option) \<Rightarrow> string \<Rightarrow> json \<Rightarrow> VerifyResponse \<Rightarrow> VerifyResponse \<times> error option"
where
  "VerifyResponse_field pf key v r =
     (let k = fold_key key in
      if k = ''email'' then
        (case decString v (VR_Email r) of (x, e) \<Rightarrow> (r\<lparr>VR_Email := x\<rparr>, e))
      else if k = ''result'' then
        (case decString v (VR_Result r) of (x, e) \<Rightarrow> (r\<lparr>VR_Result := x\<rparr>, e))
      else if k = ''reason'' then
        (case decString v (VR_Reason r) of (x, e) \<Rightarrow> (r\<lparr>VR_Reason := x\<rparr>, e))
      else if k = ''disposable'' then
        (case decBool v (VR_Disposable r) of (x, e) \<Rightarrow> (r\<lparr>VR_Disposable := x\<rparr>, e))
      else if k = ''role'' then
        (case decBool v (VR_Role r) of (x, e) \<Rightarrow> (r\<lparr>VR_Role := x\<rparr>, e))
      else if k = ''free'' then
        (case decBool v (VR_Free r) of (x, e) \<Rightarrow> (r\<lparr>VR_Free := x\<rparr>, e))
      else if k = ''score'' then
        (case decFloat64 pf v (VR_Score r) of (x, e) \<Rightarrow> (r\<lparr>VR_Score := x\<rparr>, e))
      else if k = ''smtp_provider'' then
        (case decString v (VR_SMTPProvider r) of (x, e) \<Rightarrow> (r\<lparr>VR_SMTPProvider := x\<rparr>, e))
      else if k = ''mx_records'' then
        (case decSlice (TSlice TString) [] decString v (VR_MXRecords r) of
           (x, e) \<Rightarrow> (r\<lparr>VR_MXRecords := x\<rparr>, e))
      else if k = ''domain'' then
        (case decString v (VR_Domain r) of (x, e) \<Rightarrow> (r\<lparr>VR_Domain := x\<rparr>, e))
      else if k = ''spam_trap'' then
        (case decBool v (VR_SpamTrap r) of (x, e) \<Rightarrow> (r\<lparr>VR_SpamTrap := x\<rparr>, e))
      else if k = ''mx_found'' then
        (case decBool v (VR_MXFound r) of (x, e) \<Rightarrow> (r\<lparr>VR_MXFound := x\<rparr>, e))
      else (r, None))"

definition BatchResponse_field ::
  "string \<Rightarrow> json \<Rightarrow> BatchResponse \<Rightarrow> BatchResponse \<times> error option"
where
  "BatchResponse_field key v r =
     (let k = fold_key key in
      if k = ''id'' then
        (case decInt v (BR_ID r) of (x, e) \<Rightarrow> (r\<lparr>BR_ID := x\<rparr>, e))
      else if k = ''status'' then
        (case decString v (BR_Status r) of (x, e) \<Rightarrow> (r\<lparr>BR_Status := x\<rparr>, e))
      else if k = ''total_emails'' then
        (case decInt v (BR_TotalEmails r) of (x, e) \<Rightarrow> (r\<lparr>BR_TotalEmails := x\<rparr>, e))
      else if k = ''created_at'' then
        (case decString v (BR_CreatedAt r) of (x, e) \<Rightarrow> (r\<lparr>BR_CreatedAt := x\<rparr>, e))
      else (r, None))"

definition BatchStatusResponse_field ::
  "string \<Rightarrow> json \<Rightarrow> BatchStatusResponse \<Rightarrow> BatchStatusResponse \<times> error option"
where
  "BatchStatusResponse_field key v r =
     (let k = fold_key key in
      if k = ''id'' then
        (case decInt v (BS_ID r) of (x, e) \<Rightarrow> (r\<lparr>BS_ID := x\<rparr>, e))
      else if k = ''status'' then
        (case decString v (BS_Status r) of (x, e) \<Rightarrow> (r\<lparr>BS_Status := x\<rparr>, e))
      else if k = ''progress'' then
        (case decInt v (BS_Progress r) of (x, e) \<Rightarrow> (r\<lparr>BS_Progress := x\<rparr>, e))
      else if k = ''total_emails'' then
        (case decInt v (BS_TotalEmails r) of (x, e) \<Rightarrow> (r\<lparr>BS_TotalEmails := x\<rparr>, e))
      else if k = ''processed_emails'' then
        (case decInt v (BS_ProcessedEmails r) of (x, e) \<Rightarrow> (r\<lparr>BS_ProcessedEmails := x\<rparr>, e))
      else if k = ''valid_emails'' then
        (case decInt v (BS_ValidEmails r) of (x, e) \<Rightarrow> (r\<lparr>BS_ValidEmails := x\<rparr>, e))
      else if k = ''invalid_emails'' then
        (case decInt v (BS_InvalidEmails r) of (x, e) \<Rightarrow> (r\<lparr>BS_InvalidEmails := x\<rparr>, e))
      else if k = ''unknown_emails'' then
        (case decInt v (BS_UnknownEmails r) of (x, e) \<Rightarrow> (r\<lparr>BS_UnknownEmails := x\<rparr>, e))
      else (r, None))"

definition decVerifyResponse :: "(string \<Rightarrow> real option) \<Rightarrow> VerifyResponse dec" where
  "decVerifyResponse pf = decStruct (TNamed ''emaillistchecker.VerifyResponse'') (VerifyResponse_field pf)"

definition decBatchResponse :: "BatchResponse dec" where
  "decBatchResponse = decStruct (TNamed ''emaillistchecker.BatchResponse'') BatchResponse_field"

definition decBatchStatusResponse :: "BatchStatusResponse dec" where
  "decBatchStatusResponse = decStruct (TNamed ''emaillistchecker.BatchStatusResponse'')
     BatchStatusResponse_field"

text \<open>
  The anonymous result struct \<open>struct { Data T `json:"data"` }\<close> that the operations
  declare, and the one of \<open>VerifyBatchFile\<close> with its additional \<open>Success\<close> field.
  \<open>decEnvelope\<close> takes the type \<open>T\<close> and the decoder of that type.
\<close>

record 'a envelope =
  Data :: 'a

record upload_result =
  UR_Success :: bool
  UR_Data :: "BatchResponse option"

definition envelope_field :: "'a dec \<Rightarrow> string \<Rightarrow> json \<Rightarrow> 'a envelope \<Rightarrow> 'a envelope \<times> error option" where
  "envelope_field d key v r =
     (if fold_key key = ''data'' then (case d v (Data r) of (x, e) \<Rightarrow> (r\<lparr>Data := x\<rparr>, e))
      else (r, None))"

definition decEnvelope :: "gotype \<Rightarrow> 'a dec \<Rightarrow> 'a envelope dec" where
  "decEnvelope ty d = decStruct (TStruct [(''Data'', ty, ''json:\"data\"'')]) (envelope_field d)"

definition upload_result_field ::
  "string \<Rightarrow> json \<Rightarrow> upload_result \<Rightarrow> upload_result \<times> error option"
where
  "upload_result_field key v r =
     (let k = fold_key key in
      if k = ''success'' then
        (case decBool v (UR_Success r) of (x, e) \<Rightarrow> (r\<lparr>UR_Success := x\<rparr>, e))
      else if k = ''data'' then
        (case decPointer zeroBatchResponse decBatchResponse v (UR_Data r) of
           (x, e) \<Rightarrow> (r\<lparr>UR_Data := x\<rparr>, e))
      else (r, None))"

definition decUploadResult :: "upload_result dec" where
  "decUploadResult =
     decStruct
       (TStruct [(''Success'', TBool, ''json:\"success\"''),
                 (''Data'', TPointer (TNamed ''emaillistchecker.BatchResponse''),
                  ''json:\"data\"'')])
       upload_result_field"

subsection \<open>Encoding of request bodies (json.Marshal)\<close>

text \<open>
  The values the operations pass as \<open>body\<close>, and the JSON value \<open>json.Marshal\<close>
  writes for each: fields in declaration order, \<open>omitempty\<close> fields left out when
  empty, a \<open>nil\<close> slice as \<open>null\<close>, the keys of a map sorted. None of these types
  can make \<open>json.Marshal\<close> fail.
\<close>

datatype reqbody =
    VerifyRequestBody VerifyRequest
  | BatchRequestBody BatchRequest
  | FindEmailRequestBody FindEmailRequest
  | FindByDomainBody string int int
  | FindByCompanyBody string int

definition Marshal :: "reqbody \<Rightarrow> error + json" where
  "Marshal b =
     (case b of
        VerifyRequestBody r \<Rightarrow>
          Inr (JObject
            ([(''email'', JString (VQ_Email r))] @
             (case VQ_Timeout r of None \<Rightarrow> [] | Some t \<Rightarrow> [(''timeout'', JNumber (Itoa t))]) @
             [(''smtp_check'', JBool (VQ_SMTPCheck r))]))
      | BatchRequestBody r \<Rightarrow>
          Inr (JObject
            ([(''emails'',
               (case BQ_Emails r of None \<Rightarrow> JNull | Some es \<Rightarrow> JArray (map JString es)))] @
             (if BQ_Name r = [] then [] else [(''name'', JString (BQ_Name r))]) @
             (if BQ_CallbackURL r = [] then []
              else [(''callback_url'', JString (BQ_CallbackURL r))]) @
             [(''auto_start'', JBool (BQ_AutoStart r))]))
      | FindEmailRequestBody r \<Rightarrow>
          Inr (JObject
            [(''first_name'', JString (FQ_FirstName r)),
             (''last_name'', JString (FQ_LastName r)),
             (''domain'', JString (FQ_Domain r))])
      | FindByDomainBody domain limit offset \<Rightarrow>
          Inr (JObject
            [(''domain'', JString domain),
             (''limit'', JNumber (Itoa limit)),
             (''offset'', JNumber (Itoa offset))])
      | FindByCompanyBody company limit \<Rightarrow>
          Inr (JObject
            [(''company'', JString company),
             (''limit'', JNumber (Itoa limit))]))"


section \<open>The client and its environment\<close>

record HTTPClient =
  Timeout :: int

record Client =
  apiKey :: string
  baseURL :: string
  httpClient :: HTTPClient

definition DefaultBaseURL :: string where
  "DefaultBaseURL = ''https://platform.emaillistchecker.io/api/v1''"

definition DefaultTimeout :: int where
  "DefaultTimeout = 30 * 1000000000"

definition NewClient :: "string \<Rightarrow> Client" where
  "NewClient key =
     \<lparr>apiKey = key, baseURL = DefaultBaseURL, httpClient = \<lparr>Timeout = DefaultTimeout\<rparr>\<rparr>"

definition NewClientWithConfig :: "string \<Rightarrow> string \<Rightarrow> int \<Rightarrow> Client" where
  "NewClientWithConfig key url timeout =
     \<lparr>apiKey = key, baseURL = TrimRight url ''/'', httpClient = \<lparr>Timeout = timeout\<rparr>\<rparr>"

subsection \<open>net/http\<close>

text \<open>
  A header maps a canonical field name to its values. The names the client uses
  (\<open>Authorization\<close>, \<open>Content-Type\<close>, \<open>Accept\<close>, \<open>User-Agent\<close>,
  \<open>Retry-After\<close>) are in canonical form already.
\<close>

type_synonym Header = "string \<Rightarrow> string list option"

definition Header_Set :: "Header \<Rightarrow> string \<Rightarrow> string \<Rightarrow> Header" where
  "Header_Set h k v = h(k \<mapsto> [v])"

definition Header_Get :: "Header \<Rightarrow> string \<Rightarrow> string" where
  "Header_Get h k = (case h k of None \<Rightarrow> [] | Some [] \<Rightarrow> [] | Some (v # vs) \<Rightarrow> v)"

text \<open>
  A request body is none, the encoding of a JSON value, or a multipart form with its
  boundary and parts; what is kept is the structure, not the bytes.
\<close>

datatype part = FormFile string string string | FormField string string

datatype payload = NoBody | JSONBody json | MultipartBody string "part list"

record Request =
  Method :: string
  URL :: string
  Header :: Header
  Body :: payload

record Response =
  RespStatusCode :: int
  RespHeader :: Header
  RespBody :: string
  RespReadError :: "string option"

text \<open>What \<open>httpClient.Do\<close> gives back: a transport error or a response.\<close>

datatype outcome = Failed string | Answered Response

text \<open>What the file system holds at a path: a file that cannot be opened, one that
  opens and fails on reading, or one with contents.\<close>

datatype fsfile = OpenFails string | ReadFails string | Contents string

text \<open>
  Everything outside the process is a parameter. The answer to a request may depend on
  the HTTP client's settings and on all requests sent before, so a server may answer
  the same request differently the second time. \<open>ParseJSON\<close> is the syntax check and
  scan of \<open>encoding/json\<close>, \<open>ParseFloat\<close> is \<open>strconv.ParseFloat\<close>, \<open>ParseURL\<close>
  is the check \<open>http.NewRequest\<close> makes of the URL (\<open>Some\<close> is its error) and
  \<open>Boundary\<close> is the random boundary of the multipart writer. The methods the
  client passes to \<open>http.NewRequest\<close> are the constants \<open>GET\<close>, \<open>POST\<close> and
  \<open>DELETE\<close>, which it accepts, so the URL is all that can make it fail.
\<close>

record env =
  RoundTrip :: "HTTPClient \<Rightarrow> Request list \<Rightarrow> Request \<Rightarrow> outcome"
  ParseJSON :: "string \<Rightarrow> string + json"
  ParseFloat :: "string \<Rightarrow> real option"
  ParseURL :: "string \<Rightarrow> string option"
  OpenFile :: "string \<Rightarrow> fsfile"
  Boundary :: string

text \<open>
  The state the operations run in: the client behind the receiver pointer, and the
  requests handed to the transport so far, oldest first.
\<close>

record world =
  client :: Client
  sent :: "Request list"

definition NewRequest :: "env \<Rightarrow> string \<Rightarrow> string \<Rightarrow> payload \<Rightarrow> error + Request" where
  "NewRequest env method url body =
     (case ParseURL env url of
        Some e \<Rightarrow> Inl (URLError e)
      | None \<Rightarrow> Inr \<lparr>Method = method, URL = url, Header = Map.empty, Body = body\<rparr>)"

definition Do :: "env \<Rightarrow> Request \<Rightarrow> world \<Rightarrow> outcome \<times> world" where
  "Do env req w =
     (RoundTrip env (httpClient (client w)) (sent w) req, w\<lparr>sent := sent w @ [req]\<rparr>)"

definition ReadAll :: "Response \<Rightarrow> error + string" where
  "ReadAll resp =
     (case RespReadError resp of Some e \<Rightarrow> Inl (NetError e) | None \<Rightarrow> Inr (RespBody resp))"

definition Unmarshal :: "env \<Rightarrow> string \<Rightarrow> 'a dec \<Rightarrow> 'a \<Rightarrow> 'a \<times> error option" where
  "Unmarshal env data d target =
     (case ParseJSON env data of
        Inl e \<Rightarrow> (target, Some (SyntaxError e))
      | Inr j \<Rightarrow> d j target)"

definition tspecials :: string where
  "tspecials = ''()<>@,;:'' @ [CHR 0x5C, CHR 0x22] @ ''/[]?= ''"

definition FormDataContentType :: "string \<Rightarrow> string" where
  "FormDataContentType boundary =
     ''multipart/form-data; boundary='' @
     (if \<exists>c \<in> set boundary. c \<in> set tspecials then [CHR 0x22] @ boundary @ [CHR 0x22]
      else boundary)"

section \<open>The dispatcher (Client.request)\<close>

text \<open>
  The statement that recurs in every branch of the error switch:
  \<open>if errData != nil && errData[key] != nil { msg = errData[key].(string) }\<close>.
  The type assertion has no \<open>ok\<close> result, so it panics on a value that is not a
  string.
\<close>

definition dynamic_type :: "iface \<Rightarrow> string" where
  "dynamic_type v =
     (case v of
        INil \<Rightarrow> ''nil''
      | IBool b \<Rightarrow> ''bool''
      | IFloat64 x \<Rightarrow> ''float64''
      | IString s \<Rightarrow> ''string''
      | ISlice xs \<Rightarrow> ''[]interface {}''
      | IMap m \<Rightarrow> ''map[string]interface {}'')"

definition payload_message :: "gomap option \<Rightarrow> string \<Rightarrow> string \<Rightarrow> string go" where
  "payload_message errData key msg =
     (case errData of
        None \<Rightarrow> Returns msg
      | Some m \<Rightarrow>
          (case m key of
             None \<Rightarrow> Returns msg
           | Some INil \<Rightarrow> Returns msg
           | Some (IString s) \<Rightarrow> Returns s
           | Some v \<Rightarrow>
               Panics (''interface conversion: interface {} is '' @ dynamic_type v @
                       '', not string'')))"

definition with_message :: "string go \<Rightarrow> (string \<Rightarrow> error) \<Rightarrow> error go" where
  "with_message m mk = (case m of Panics p \<Rightarrow> Panics p | Returns msg \<Rightarrow> Returns (mk msg))"

text \<open>The block \<open>if resp.StatusCode >= 400 { ... }\<close> of \<open>request\<close>.\<close>

definition request_failure :: "env \<Rightarrow> Response \<Rightarrow> string \<Rightarrow> error go" where
  "request_failure env resp respBody =
     (let errData = fst (Unmarshal env respBody (decMap (ParseFloat env)) None);
          code = RespStatusCode resp
      in
        if code = 401 then
          with_message (payload_message errData ''error'' ''Invalid API key'')
            (\<lambda>msg. NewAuthenticationError msg code errData)
        else if code = 402 then
          with_message (payload_message errData ''error'' ''Insufficient credits'')
            (\<lambda>msg. NewInsufficientCreditsError msg code errData)
        else if code = 422 then
          with_message (payload_message errData ''message'' ''Validation error'')
            (\<lambda>msg. NewValidationError msg code errData)
        else if code = 429 then
          (let retryHeader = Header_Get (RespHeader resp) ''Retry-After'';
               retryAfter =
                 (if retryHeader \<noteq> [] then
                    (case Atoi retryHeader of Some val \<Rightarrow> val | None \<Rightarrow> 60)
                  else 60)
           in Returns (NewRateLimitError retryAfter code errData))
        else
          with_message (payload_message errData ''error'' (''API error: '' @ Itoa code))
            (\<lambda>msg. NewAPIError msg code errData))"

text \<open>Lines 422 to 441 of \<open>request\<close>: the URL, the body and the four headers.\<close>

definition request_build ::
  "env \<Rightarrow> Client \<Rightarrow> string \<Rightarrow> string \<Rightarrow> reqbody option \<Rightarrow> error + Request"
where
  "request_build env c method endpoint body =
     (let url = baseURL c @ endpoint in
      case (case body of
              None \<Rightarrow> Inr NoBody
            | Some b \<Rightarrow>
                (case Marshal b of
                   Inl e \<Rightarrow> Inl (Errorf ''failed to marshal request body: '' e)
                 | Inr j \<Rightarrow> Inr (JSONBody j)))
      of
        Inl e \<Rightarrow> Inl e
      | Inr reqBody \<Rightarrow>
          (case NewRequest env method url reqBody of
             Inl e \<Rightarrow> Inl (Errorf ''failed to create request: '' e)
           | Inr req \<Rightarrow>
               Inr (req\<lparr>Header :=
                 Header_Set (Header_Set (Header_Set (Header_Set (Header req)
                   ''Authorization'' (''Bearer '' @ apiKey c))
                   ''Content-Type'' ''application/json'')
                   ''Accept'' ''application/json'')
                   ''User-Agent'' ''EmailListChecker-Go/1.0.0''\<rparr>)))"

text \<open>
  Lines 444 to 506: what \<open>request\<close> makes of the transport's answer. \<open>dec\<close> and
  \<open>result\<close> stand for the \<open>result\<close> pointer: the decoder of its type and the value
  it points to; \<open>dec = None\<close> is \<open>result == nil\<close>. The value is returned with
  the error, as the caller's variable holds it after the call.
\<close>

definition request_receive ::
  "env \<Rightarrow> 'a dec option \<Rightarrow> 'a \<Rightarrow> outcome \<Rightarrow> ('a \<times> error option) go"
where
  "request_receive env dec result out =
     (case out of
        Failed e \<Rightarrow> Returns (result, Some (Errorf ''request failed: '' (NetError e)))
      | Answered resp \<Rightarrow>
          (case ReadAll resp of
             Inl e \<Rightarrow> Returns (result, Some (Errorf ''failed to read response body: '' e))
           | Inr respBody \<Rightarrow>
               if RespStatusCode resp \<ge> 400 then
                 (case request_failure env resp respBody of
                    Panics p \<Rightarrow> Panics p
                  | Returns err \<Rightarrow> Returns (result, Some err))
               else
                 (case dec of
                    None \<Rightarrow> Returns (result, None)
                  | Some d \<Rightarrow>
                      if respBody \<noteq> [] then
                        (case Unmarshal env respBody d result of
                           (r, err) \<Rightarrow>
                             (case err of
                                None \<Rightarrow> Returns (r, None)
                              | Some e \<Rightarrow>
                                  Returns (r, Some (Errorf ''failed to unmarshal response: '' e))))
                      else Returns (result, None))))"

definition request ::
  "env \<Rightarrow> string \<Rightarrow> string \<Rightarrow> reqbody option \<Rightarrow> 'a dec option \<Rightarrow> 'a \<Rightarrow> world \<Rightarrow>
   ('a \<times> error option) go \<times> world"
where
  "request env method endpoint body dec result w =
     (case request_build env (client w) method endpoint body of
        Inl e \<Rightarrow> (Returns (result, Some e), w)
      | Inr req \<Rightarrow>
          (case Do env req w of
             (out, w') \<Rightarrow> (request_receive env dec result out, w')))"


section \<open>The operations\<close>

text \<open>
  An operation returns its Go result pair, value first, or panics, and the world after
  it. A \<open>nil\<close> pointer, map or slice is \<open>None\<close>; a \<open>nil\<close> \<open>interface{}\<close> is
  \<open>INil\<close>; a \<open>nil\<close> error is \<open>None\<close>.
\<close>

definition Verify ::
  "env \<Rightarrow> string \<Rightarrow> int option \<Rightarrow> bool \<Rightarrow> world \<Rightarrow>
   (VerifyResponse option \<times> error option) go \<times> world"
where
  "Verify env email timeout smtpCheck w =
     (let req = \<lparr>VQ_Email = email, VQ_Timeout = timeout, VQ_SMTPCheck = smtpCheck\<rparr> in
      case request env ''POST'' ''/verify'' (Some (VerifyRequestBody req))
             (Some (decEnvelope (TPointer (TNamed ''emaillistchecker.VerifyResponse''))
               (decPointer zeroVerifyResponse (decVerifyResponse (ParseFloat env)))))
             \<lparr>Data = None\<rparr> w
      of (ret, w1) \<Rightarrow>
        (case ret of
           Panics p \<Rightarrow> (Panics p, w1)
         | Returns (result, err) \<Rightarrow>
             if err \<noteq> None then (Returns (None, err), w1)
             else if Data result \<noteq> None then (Returns (Data result, None), w1)
             else
               (case request env ''POST'' ''/verify'' (Some (VerifyRequestBody req))
                       (Some (decVerifyResponse (ParseFloat env))) zeroVerifyResponse w1
                of (ret2, w2) \<Rightarrow>
                  (case ret2 of
                     Panics p \<Rightarrow> (Panics p, w2)
                   | Returns (directResult, err2) \<Rightarrow> (Returns (Some directResult, err2), w2)))))"

definition VerifyBatch ::
  "env \<Rightarrow> string list option \<Rightarrow> string \<Rightarrow> string \<Rightarrow> bool \<Rightarrow> world \<Rightarrow>
   (BatchResponse option \<times> error option) go \<times> world"
where
  "VerifyBatch env emails name callbackURL autoStart w =
     (let req = \<lparr>BQ_Emails = emails, BQ_Name = name, BQ_CallbackURL = callbackURL,
                 BQ_AutoStart = autoStart\<rparr> in
      case request env ''POST'' ''/verify/batch'' (Some (BatchRequestBody req))
             (Some (decEnvelope (TPointer (TNamed ''emaillistchecker.BatchResponse''))
               (decPointer zeroBatchResponse decBatchResponse)))
             \<lparr>Data = None\<rparr> w
      of (ret, w1) \<Rightarrow>
        (case ret of
           Panics p \<Rightarrow> (Panics p, w1)
         | Returns (result, err) \<Rightarrow>
             if err \<noteq> None then (Returns (None, err), w1)
             else if Data result \<noteq> None then (Returns (Data result, None), w1)
             else
               (case request env ''POST'' ''/verify/batch'' (Some (BatchRequestBody req))
                       (Some decBatchResponse) zeroBatchResponse w1
                of (ret2, w2) \<Rightarrow>
                  (case ret2 of
                     Panics p \<Rightarrow> (Panics p, w2)
                   | Returns (directResult, err2) \<Rightarrow> (Returns (Some directResult, err2), w2)))))"

definition GetBatchStatus ::
  "env \<Rightarrow> int \<Rightarrow> world \<Rightarrow> (BatchStatusResponse option \<times> error option) go \<times> world"
where
  "GetBatchStatus env batchID w =
     (let endpoint = ''/verify/batch/'' @ Itoa batchID in
      case request env ''GET'' endpoint None
             (Some (decEnvelope (TPointer (TNamed ''emaillistchecker.BatchStatusResponse''))
               (decPointer zeroBatchStatusResponse decBatchStatusResponse)))
             \<lparr>Data = None\<rparr> w
      of (ret, w1) \<Rightarrow>
        (case ret of
           Panics p \<Rightarrow> (Panics p, w1)
         | Returns (result, err) \<Rightarrow>
             if err \<noteq> None then (Returns (None, err), w1)
             else if Data result \<noteq> None then (Returns (Data result, None), w1)
             else
               (case request env ''GET'' endpoint None
                       (Some decBatchStatusResponse) zeroBatchStatusResponse w1
                of (ret2, w2) \<Rightarrow>
                  (case ret2 of
                     Panics p \<Rightarrow> (Panics p, w2)
                   | Returns (directResult, err2) \<Rightarrow> (Returns (Some directResult, err2), w2)))))"

text \<open>
  The operations with an opaque result declare the envelope only and return its
  \<open>Data\<close> field.
\<close>

definition GetBatchResults ::
  "env \<Rightarrow> int \<Rightarrow> string \<Rightarrow> string \<Rightarrow> world \<Rightarrow> (iface \<times> error option) go \<times> world"
where
  "GetBatchResults env batchID format filter' w =
     (let endpoint =
        ''/verify/batch/'' @ Itoa batchID @ ''/results?format='' @ format @ ''&filter='' @ filter'
      in
      case request env ''GET'' endpoint None
             (Some (decEnvelope TInterface (decInterface (ParseFloat env)))) \<lparr>Data = INil\<rparr> w
      of (ret, w1) \<Rightarrow>
        (case ret of
           Panics p \<Rightarrow> (Panics p, w1)
         | Returns (result, err) \<Rightarrow>
             if err \<noteq> None then (Returns (INil, err), w1)
             else (Returns (Data result, None), w1)))"

definition FindEmail ::
  "env \<Rightarrow> string \<Rightarrow> string \<Rightarrow> string \<Rightarrow> world \<Rightarrow> (gomap option \<times> error option) go \<times> world"
where
  "FindEmail env firstName lastName domain w =
     (let req = \<lparr>FQ_FirstName = firstName, FQ_LastName = lastName, FQ_Domain = domain\<rparr> in
      case request env ''POST'' ''/finder/email'' (Some (FindEmailRequestBody req))
             (Some (decEnvelope (TMap TString TInterface) (decMap (ParseFloat env)))) \<lparr>Data = None\<rparr> w
      of (ret, w1) \<Rightarrow>
        (case ret of
           Panics p \<Rightarrow> (Panics p, w1)
         | Returns (result, err) \<Rightarrow>
             if err \<noteq> None then (Returns (None, err), w1)
             else (Returns (Data result, None), w1)))"

definition FindByDomain ::
  "env \<Rightarrow> string \<Rightarrow> int \<Rightarrow> int \<Rightarrow> world \<Rightarrow> (gomap option \<times> error option) go \<times> world"
where
  "FindByDomain env domain limit offset w =
     (case request env ''POST'' ''/finder/domain'' (Some (FindByDomainBody domain limit offset))
             (Some (decEnvelope (TMap TString TInterface) (decMap (ParseFloat env)))) \<lparr>Data = None\<rparr> w
      of (ret, w1) \<Rightarrow>
        (case ret of
           Panics p \<Rightarrow> (Panics p, w1)
         | Returns (result, err) \<Rightarrow>
             if err \<noteq> None then (Returns (None, err), w1)
             else (Returns (Data result, None), w1)))"

definition FindByCompany ::
  "env \<Rightarrow> string \<Rightarrow> int \<Rightarrow> world \<Rightarrow> (gomap option \<times> error option) go \<times> world"
where
  "FindByCompany env company limit w =
     (case request env ''POST'' ''/finder/company'' (Some (FindByCompanyBody company limit))
             (Some (decEnvelope (TMap TString TInterface) (decMap (ParseFloat env)))) \<lparr>Data = None\<rparr> w
      of (ret, w1) \<Rightarrow>
        (case ret of
           Panics p \<Rightarrow> (Panics p, w1)
         | Returns (result, err) \<Rightarrow>
             if err \<noteq> None then (Returns (None, err), w1)
             else (Returns (Data result, None), w1)))"

definition GetCredits :: "env \<Rightarrow> world \<Rightarrow> (gomap option \<times> error option) go \<times> world" where
  "GetCredits env w =
     (case request env ''GET'' ''/credits'' None
             (Some (decEnvelope (TMap TString TInterface) (decMap (ParseFloat env)))) \<lparr>Data = None\<rparr> w
      of (ret, w1) \<Rightarrow>
        (case ret of
           Panics p \<Rightarrow> (Panics p, w1)
         | Returns (result, err) \<Rightarrow>
             if err \<noteq> None then (Returns (None, err), w1)
             else (Returns (Data result, None), w1)))"

definition GetUsage :: "env \<Rightarrow> world \<Rightarrow> (gomap option \<times> error option) go \<times> world" where
  "GetUsage env w =
     (case request env ''GET'' ''/usage'' None
             (Some (decEnvelope (TMap TString TInterface) (decMap (ParseFloat env)))) \<lparr>Data = None\<rparr> w
      of (ret, w1) \<Rightarrow>
        (case ret of
           Panics p \<Rightarrow> (Panics p, w1)
         | Returns (result, err) \<Rightarrow>
             if err \<noteq> None then (Returns (None, err), w1)
             else (Returns (Data result, None), w1)))"

definition GetLists :: "env \<Rightarrow> world \<Rightarrow> (iface list option \<times> error option) go \<times> world" where
  "GetLists env w =
     (case request env ''GET'' ''/lists'' None
             (Some (decEnvelope (TSlice TInterface) (decInterfaceSlice (ParseFloat env)))) \<lparr>Data = None\<rparr> w
      of (ret, w1) \<Rightarrow>
        (case ret of
           Panics p \<Rightarrow> (Panics p, w1)
         | Returns (result, err) \<Rightarrow>
             if err \<noteq> None then (Returns (None, err), w1)
             else (Returns (Data result, None), w1)))"

text \<open>\<open>DeleteList\<close> passes no result pointer; the unit value stands for it.\<close>

definition DeleteList :: "env \<Rightarrow> int \<Rightarrow> world \<Rightarrow> error option go \<times> world" where
  "DeleteList env listID w =
     (let endpoint = ''/lists/'' @ Itoa listID in
      case request env ''DELETE'' endpoint None (None :: unit dec option) () w
      of (ret, w1) \<Rightarrow>
        (case ret of
           Panics p \<Rightarrow> (Panics p, w1)
         | Returns (u, err) \<Rightarrow> (Returns err, w1)))"

subsection \<open>VerifyBatchFile\<close>

text \<open>The block \<open>if resp.StatusCode >= 400 { ... }\<close> of \<open>VerifyBatchFile\<close>.\<close>

definition upload_failure :: "env \<Rightarrow> Response \<Rightarrow> string \<Rightarrow> error go" where
  "upload_failure env resp responseBody =
     (let errData = fst (Unmarshal env responseBody (decMap (ParseFloat env)) None);
          code = RespStatusCode resp
      in
        if code = 401 then
          with_message (payload_message errData ''error'' ''Invalid API key'')
            (\<lambda>msg. NewAuthenticationError msg code errData)
        else if code = 402 then
          with_message (payload_message errData ''error'' ''Insufficient credits'')
            (\<lambda>msg. NewInsufficientCreditsError msg code errData)
        else if code = 422 then
          with_message (payload_message errData ''message'' ''Validation error'')
            (\<lambda>msg. NewValidationError msg code errData)
        else
          with_message (payload_message errData ''error'' (''API error: '' @ Itoa code))
            (\<lambda>msg. NewAPIError msg code errData))"

text \<open>Lines 209 to 265: what \<open>VerifyBatchFile\<close> makes of the transport's answer.\<close>

definition upload_receive :: "env \<Rightarrow> outcome \<Rightarrow> (BatchResponse option \<times> error option) go" where
  "upload_receive env out =
     (case out of
        Failed e \<Rightarrow> Returns (None, Some (NetError e))
      | Answered resp \<Rightarrow>
          (case ReadAll resp of
             Inl e \<Rightarrow> Returns (None, Some e)
           | Inr responseBody \<Rightarrow>
               if RespStatusCode resp \<ge> 400 then
                 (case upload_failure env resp responseBody of
                    Panics p \<Rightarrow> Panics p
                  | Returns err \<Rightarrow> Returns (None, Some err))
               else
                 (case Unmarshal env responseBody decUploadResult
                         \<lparr>UR_Success = False, UR_Data = None\<rparr>
                  of (result, err) \<Rightarrow>
                    if err \<noteq> None then Returns (None, err)
                    else Returns (UR_Data result, None))))"

text \<open>
  The multipart writer writes into a memory buffer, where \<open>CreateFormFile\<close>,
  \<open>WriteField\<close> and \<open>Close\<close> cannot fail; copying the file can.
\<close>

definition upload_parts :: "string \<Rightarrow> string \<Rightarrow> string option \<Rightarrow> string option \<Rightarrow> bool \<Rightarrow> part list" where
  "upload_parts filePath contents name callbackURL autoStart =
     [FormFile ''file'' (Base filePath) contents,
      FormField ''auto_start'' (FormatBool autoStart)] @
     (case name of None \<Rightarrow> [] | Some n \<Rightarrow> [FormField ''name'' n]) @
     (case callbackURL of None \<Rightarrow> [] | Some u \<Rightarrow> [FormField ''callback_url'' u])"

definition VerifyBatchFile ::
  "env \<Rightarrow> string \<Rightarrow> string option \<Rightarrow> string option \<Rightarrow> bool \<Rightarrow> world \<Rightarrow>
   (BatchResponse option \<times> error option) go \<times> world"
where
  "VerifyBatchFile env filePath name callbackURL autoStart w =
     (case OpenFile env filePath of
        OpenFails e \<Rightarrow>
          (Returns (None, Some (Errorf ''failed to open file: '' (OSError e))), w)
      | ReadFails e \<Rightarrow> (Returns (None, Some (OSError e)), w)
      | Contents contents \<Rightarrow>
          (let body = MultipartBody (Boundary env)
                        (upload_parts filePath contents name callbackURL autoStart)
           in
           case NewRequest env ''POST'' (baseURL (client w) @ ''/verify/batch/upload'') body of
             Inl e \<Rightarrow> (Returns (None, Some e), w)
           | Inr req0 \<Rightarrow>
               (let req = req0\<lparr>Header :=
                      Header_Set (Header_Set (Header_Set (Header req0)
                        ''Authorization'' (''Bearer '' @ apiKey (client w)))
                        ''Content-Type'' (FormDataContentType (Boundary env)))
                        ''User-Agent'' ''EmailListChecker-Go/1.0.0''\<rparr>
                in
                case Do env req w of
                  (out, w') \<Rightarrow> (upload_receive env out, w'))))"


section \<open>Calls of the public interface\<close>

text \<open>
  To speak of every operation at once: a call is an operation with its arguments, and
  \<open>perform\<close> runs it. The results of the operations have different types; \<open>retval\<close>
  is their sum, with one \<open>NilValue\<close> for the \<open>nil\<close> pointer, map, slice and interface.
\<close>

datatype call =
    CallVerify string "int option" bool
  | CallVerifyBatch "string list option" string string bool
  | CallVerifyBatchFile string "string option" "string option" bool
  | CallGetBatchStatus int
  | CallGetBatchResults int string string
  | CallFindEmail string string string
  | CallFindByDomain string int int
  | CallFindByCompany string int
  | CallGetCredits
  | CallGetUsage
  | CallGetLists
  | CallDeleteList int

datatype retval =
    NilValue
  | VerifyValue VerifyResponse
  | BatchValue BatchResponse
  | StatusValue BatchStatusResponse
  | InterfaceValue iface
  | MapValue gomap
  | SliceValue "iface list"
  | NoValue

definition returning ::
  "('a \<Rightarrow> retval) \<Rightarrow> ('a \<times> error option) go \<times> world \<Rightarrow> (retval \<times> error option) go \<times> world"
where
  "returning mk r =
     (case fst r of
        Panics p \<Rightarrow> (Panics p, snd r)
      | Returns (x, err) \<Rightarrow> (Returns (mk x, err), snd r))"

definition pointer_value :: "('a \<Rightarrow> retval) \<Rightarrow> 'a option \<Rightarrow> retval" where
  "pointer_value mk p = (case p of None \<Rightarrow> NilValue | Some x \<Rightarrow> mk x)"

definition interface_value :: "iface \<Rightarrow> retval" where
  "interface_value x = (if x = INil then NilValue else InterfaceValue x)"

definition perform :: "env \<Rightarrow> call \<Rightarrow> world \<Rightarrow> (retval \<times> error option) go \<times> world" where
  "perform env c w =
     (case c of
        CallVerify email timeout smtpCheck \<Rightarrow>
          returning (pointer_value VerifyValue) (Verify env email timeout smtpCheck w)
      | CallVerifyBatch emails name callbackURL autoStart \<Rightarrow>
          returning (pointer_value BatchValue) (VerifyBatch env emails name callbackURL autoStart w)
      | CallVerifyBatchFile filePath name callbackURL autoStart \<Rightarrow>
          returning (pointer_value BatchValue)
            (VerifyBatchFile env filePath name callbackURL autoStart w)
      | CallGetBatchStatus batchID \<Rightarrow>
          returning (pointer_value StatusValue) (GetBatchStatus env batchID w)
      | CallGetBatchResults batchID format filter' \<Rightarrow>
          returning interface_value (GetBatchResults env batchID format filter' w)
      | CallFindEmail firstName lastName domain \<Rightarrow>
          returning (pointer_value MapValue) (FindEmail env firstName lastName domain w)
      | CallFindByDomain domain limit offset \<Rightarrow>
          returning (pointer_value MapValue) (FindByDomain env domain limit offset w)
      | CallFindByCompany company limit \<Rightarrow>
          returning (pointer_value MapValue) (FindByCompany env company limit w)
      | CallGetCredits \<Rightarrow> returning (pointer_value MapValue) (GetCredits env w)
      | CallGetUsage \<Rightarrow> returning (pointer_value MapValue) (GetUsage env w)
      | CallGetLists \<Rightarrow> returning (pointer_value SliceValue) (GetLists env w)
      | CallDeleteList listID \<Rightarrow>
          (case DeleteList env listID w of
             (ret, w') \<Rightarrow>
               (case ret of Panics p \<Rightarrow> (Panics p, w') | Returns err \<Rightarrow> (Returns (NoValue, err), w'))))"

text \<open>The requests a call hands to the transport, in order.\<close>

definition issued :: "env \<Rightarrow> call \<Rightarrow> world \<Rightarrow> Request list" where
  "issued env c w = drop (length (sent w)) (sent (snd (perform env c w)))"

text \<open>The endpoint each operation passes to \<open>request\<close> or appends to the base URL.\<close>

definition endpoint_of :: "call \<Rightarrow> string" where
  "endpoint_of c =
     (case c of
        CallVerify email timeout smtpCheck \<Rightarrow> ''/verify''
      | CallVerifyBatch emails name callbackURL autoStart \<Rightarrow> ''/verify/batch''
      | CallVerifyBatchFile filePath name callbackURL autoStart \<Rightarrow> ''/verify/batch/upload''
      | CallGetBatchStatus batchID \<Rightarrow> ''/verify/batch/'' @ Itoa batchID
      | CallGetBatchResults batchID format filter' \<Rightarrow>
          ''/verify/batch/'' @ Itoa batchID @ ''/results?format='' @ format @ ''&filter='' @ filter'
      | CallFindEmail firstName lastName domain \<Rightarrow> ''/finder/email''
      | CallFindByDomain domain limit offset \<Rightarrow> ''/finder/domain''
      | CallFindByCompany company limit \<Rightarrow> ''/finder/company''
      | CallGetCredits \<Rightarrow> ''/credits''
      | CallGetUsage \<Rightarrow> ''/usage''
      | CallGetLists \<Rightarrow> ''/lists''
      | CallDeleteList listID \<Rightarrow> ''/lists/'' @ Itoa listID)"


subsection \<open>A scripted server\<close>

text \<open>
  An environment for running the operations on examples: the server answers the
  \<open>n\<close>-th request it receives with the \<open>n\<close>-th response of a script and refuses
  the connection afterwards; \<open>scan\<close> is the JSON scanner on the bodies used in the
  examples; one file exists.
\<close>

definition scan :: "string \<Rightarrow> string + json" where
  "scan s =
     (if s = ''{\"data\":{\"email\":\"a@b.com\",\"result\":\"deliverable\"}}'' then
        Inr (JObject [(''data'',
               JObject [(''email'', JString ''a@b.com''), (''result'', JString ''deliverable'')])])
      else if s = ''{\"email\":\"a@b.com\",\"result\":\"deliverable\"}'' then
        Inr (JObject [(''email'', JString ''a@b.com''), (''result'', JString ''deliverable'')])
      else if s = ''{\"balance\":\"100\"}'' then
        Inr (JObject [(''balance'', JString ''100'')])
      else if s = ''{\"id\":7,\"status\":\"pending\"}'' then
        Inr (JObject [(''id'', JNumber ''7''), (''status'', JString ''pending'')])
      else if s = ''{\"success\":\"yes\"}'' then
        Inr (JObject [(''success'', JString ''yes'')])
      else if s = ''{\"error\":\"slow down\"}'' then
        Inr (JObject [(''error'', JString ''slow down'')])
      else if s = ''{\"error\":123}'' then
        Inr (JObject [(''error'', JNumber ''123'')])
      else if s = ''[1]'' then
        Inr (JArray [JNumber ''1''])
      else if s = ''null'' then
        Inr JNull
      else if s = ''{\"'' @ [CHR 0xC5, CHR 0xBF] @ ''uccess\":\"yes\"}'' then
        Inr (JObject [([CHR 0xC5, CHR 0xBF] @ ''uccess'', JString ''yes'')])
      else if s = ''email,result'' then
        Inl ''invalid character 'e' looking for beginning of value''
      else Inl ''invalid character'')"

definition scripted :: "Response list \<Rightarrow> env" where
  "scripted script =
     \<lparr>RoundTrip =
        (\<lambda>hc log req.
           if length log < length script then Answered (script ! length log)
           else Failed ''connection refused''),
      ParseJSON = scan,
      ParseFloat = (\<lambda>l. map_option real (ParseUint l)),
      ParseURL = (\<lambda>u. None),
      OpenFile =
        (\<lambda>p. if p = ''emails.csv'' then Contents ''a@b.com''
             else OpenFails ''no such file or directory''),
      Boundary = ''7d0f''\<rparr>"

definition answer :: "int \<Rightarrow> (string \<times> string) list \<Rightarrow> string \<Rightarrow> Response" where
  "answer code hdrs body =
     \<lparr>RespStatusCode = code, RespHeader = map_of (map (\<lambda>kv. (fst kv, [snd kv])) hdrs),
      RespBody = body, RespReadError = None\<rparr>"

definition fresh :: "Client \<Rightarrow> world" where
  "fresh c = \<lparr>client = c, sent = []\<rparr>"


subsection \<open>Predicates used in the statements\<close>

definition trailing_slash :: "string \<Rightarrow> bool" where
  "trailing_slash s = (s \<noteq> [] \<and> last s = CHR ''/'')"

definition double_slash_at :: "string \<Rightarrow> nat \<Rightarrow> bool" where
  "double_slash_at s i = (Suc i < length s \<and> s ! i = CHR ''/'' \<and> s ! Suc i = CHR ''/'')"

text \<open>
  \<open>sends env method endpoint body n w w'\<close>: the world \<open>w'\<close> is \<open>w\<close> after at most
  \<open>n\<close> more requests, each of them the request that \<open>request\<close> builds from
  \<open>method\<close>, \<open>endpoint\<close> and \<open>body\<close>; nothing else has changed.
\<close>

definition sends ::
  "env \<Rightarrow> string \<Rightarrow> string \<Rightarrow> reqbody option \<Rightarrow> nat \<Rightarrow> world \<Rightarrow> world \<Rightarrow> bool"
where
  "sends env method endpoint body n w w' =
     (\<exists>rs. w' = w\<lparr>sent := sent w @ rs\<rparr> \<and> length rs \<le> n \<and>
           (\<forall>r \<in> set rs. request_build env (client w) method endpoint body = Inr r))"

text \<open>The five variants of a typed error, and \<open>Other\<close> for the errors that are not
  API failures.\<close>

datatype variant = Authentication | InsufficientCredits | RateLimit | Validation | Generic | Other

definition variant_of :: "error \<Rightarrow> variant" where
  "variant_of e =
     (case e of
        AuthenticationError x \<Rightarrow> Authentication
      | InsufficientCreditsError x \<Rightarrow> InsufficientCredits
      | RateLimitError x n \<Rightarrow> RateLimit
      | ValidationError x \<Rightarrow> Validation
      | APIError x \<Rightarrow> Generic
      | _ \<Rightarrow> Other)"

text \<open>The classification table as the specification words it (section 4.2), for
  comparison with the two switches of the code.\<close>

definition spec_variant :: "int \<Rightarrow> variant" where
  "spec_variant code =
     (if code = 401 then Authentication
      else if code = 402 then InsufficientCredits
      else if code = 422 then Validation
      else if code = 429 then RateLimit
      else Generic)"

text \<open>
  A JSON value without a \<open>data\<close> envelope that decodes into a struct: \<open>null\<close>, or
  an object in which every member whose key selects the \<open>Data\<close> field is null.
\<close>

definition lacks_data :: "json \<Rightarrow> bool" where
  "lacks_data j =
     (case j of
        JNull \<Rightarrow> True
      | JObject kvs \<Rightarrow> (\<forall>kv \<in> set kvs. fold_key (fst kv) = ''data'' \<longrightarrow> snd kv = JNull)
      | _ \<Rightarrow> False)"

text \<open>Every member of an object whose key selects the \<open>Success\<close> field is a boolean
  or null.\<close>

definition success_is_bool :: "json \<Rightarrow> bool" where
  "success_is_bool j =
     (case j of
        JObject kvs \<Rightarrow>
          (\<forall>kv \<in> set kvs. fold_key (fst kv) = ''success'' \<longrightarrow>
             (case snd kv of JNull \<Rightarrow> True | JBool b \<Rightarrow> True | _ \<Rightarrow> False))
      | _ \<Rightarrow> True)"

text \<open>The operations that fall back to the bare payload.\<close>

definition falls_back :: "call \<Rightarrow> bool" where
  "falls_back c =
     (case c of
        CallVerify email timeout smtpCheck \<Rightarrow> True
      | CallVerifyBatch emails name callbackURL autoStart \<Rightarrow> True
      | CallGetBatchStatus batchID \<Rightarrow> True
      | _ \<Rightarrow> False)"

text \<open>The operation that sends a multipart form.\<close>

definition multipart :: "call \<Rightarrow> bool" where
  "multipart c =
     (case c of
        CallVerifyBatchFile filePath name callbackURL autoStart \<Rightarrow> True
      | _ \<Rightarrow> False)"

text \<open>The values of one header field in a list of requests.\<close>

definition header_values :: "string \<Rightarrow> Request list \<Rightarrow> string list" where
  "header_values k rs = map (\<lambda>r. Header_Get (Header r) k) rs"

text \<open>The \<open>Error\<close> embedded in a typed error.\<close>

definition embedded :: "error \<Rightarrow> Error option" where
  "embedded e =
     (case e of
        AuthenticationError x \<Rightarrow> Some x
      | InsufficientCreditsError x \<Rightarrow> Some x
      | RateLimitError x n \<Rightarrow> Some x
      | ValidationError x \<Rightarrow> Some x
      | APIError x \<Rightarrow> Some x
      | _ \<Rightarrow> None)"

section \<open>Facts about the library functions\<close>

lemma TrimRight_no_trailing: "\<not> trailing_slash (TrimRight s ''/'')"
proof -
  let ?d = "dropWhile (\<lambda>c. c \<in> set ''/'') (rev s)"
  have "?d \<noteq> [] \<Longrightarrow> hd ?d \<noteq> CHR ''/''"
    using hd_dropWhile [of "\<lambda>c. c \<in> set ''/''" "rev s"] by simp
  then show ?thesis
    by (auto simp: trailing_slash_def TrimRight_def last_rev)
qed

lemma TrimRight_example: "TrimRight ''https://x.io/api/'' ''/'' = ''https://x.io/api''"
  by (simp add: TrimRight_def)

section \<open>Facts about the dispatcher\<close>

lemma request_build_Inr:
  assumes "request_build env c m ep b = Inr req"
  shows "URL req = baseURL c @ ep" and "Method req = m"
    and "Header req = [''Authorization'' \<mapsto> [''Bearer '' @ apiKey c],
                       ''Content-Type'' \<mapsto> [''application/json''],
                       ''Accept'' \<mapsto> [''application/json''],
                       ''User-Agent'' \<mapsto> [''EmailListChecker-Go/1.0.0'']]"
    and "ParseURL env (baseURL c @ ep) = None"
  using assms
  by (auto simp: request_build_def NewRequest_def Header_Set_def Let_def
      split: option.splits sum.splits)

lemma request_build_ok:
  assumes "ParseURL env (baseURL c @ ep) = None"
  shows "\<exists>req. request_build env c m ep b = Inr req"
  using assms
  by (auto simp: request_build_def NewRequest_def Marshal_def Let_def
      split: option.splits sum.splits reqbody.splits)

lemma request_world:
  assumes "request env m ep b d r w = (x, w')"
  shows "(w' = w \<and> (\<exists>e. request_build env (client w) m ep b = Inl e)) \<or>
         (\<exists>req. request_build env (client w) m ep b = Inr req \<and> w' = w\<lparr>sent := sent w @ [req]\<rparr>)"
  using assms
  by (auto simp: request_def Do_def split: sum.splits)

lemma request_answered:
  assumes "request_build env (client w) m ep b = Inr req"
    and "RoundTrip env (httpClient (client w)) (sent w) req = out"
  shows "request env m ep b d r w = (request_receive env d r out, w\<lparr>sent := sent w @ [req]\<rparr>)"
  using assms by (simp add: request_def Do_def)

lemma sends_one:
  assumes "request env m ep b d r w = (x, w')"
  shows "sends env m ep b 1 w w'"
proof -
  from request_world [OF assms] show ?thesis
  proof
    assume "w' = w \<and> (\<exists>e. request_build env (client w) m ep b = Inl e)"
    then have "w' = w\<lparr>sent := sent w @ []\<rparr>" by simp
    then show ?thesis unfolding sends_def by (intro exI [of _ "[]"]) simp
  next
    assume "\<exists>req. request_build env (client w) m ep b = Inr req \<and> w' = w\<lparr>sent := sent w @ [req]\<rparr>"
    then obtain req where "request_build env (client w) m ep b = Inr req"
      and "w' = w\<lparr>sent := sent w @ [req]\<rparr>" by blast
    then show ?thesis unfolding sends_def by (intro exI [of _ "[req]"]) simp
  qed
qed

lemma sends_trans:
  assumes "sends env m ep b i w w1" and "sends env m ep b j w1 w2"
  shows "sends env m ep b (i + j) w w2"
proof -
  from assms(1) obtain rs where rs: "w1 = w\<lparr>sent := sent w @ rs\<rparr>" "length rs \<le> i"
    "\<forall>r \<in> set rs. request_build env (client w) m ep b = Inr r"
    unfolding sends_def by blast
  from assms(2) obtain ss where ss: "w2 = w1\<lparr>sent := sent w1 @ ss\<rparr>" "length ss \<le> j"
    "\<forall>r \<in> set ss. request_build env (client w1) m ep b = Inr r"
    unfolding sends_def by blast
  have "client w1 = client w" using rs(1) by simp
  with rs ss show ?thesis
    unfolding sends_def by (intro exI [of _ "rs @ ss"]) auto
qed

lemma sends_mono: "sends env m ep b i w w' \<Longrightarrow> i \<le> j \<Longrightarrow> sends env m ep b j w w'"
  unfolding sends_def by fastforce

lemma sends_two:
  assumes "request env m ep b d1 r1 w = (x1, w1)" and "request env m ep b d2 r2 w1 = (x2, w2)"
  shows "sends env m ep b 2 w w1" and "sends env m ep b 2 w w2"
proof -
  show "sends env m ep b 2 w w1"
    by (rule sends_mono [OF sends_one [OF assms(1)]]) simp
  show "sends env m ep b 2 w w2"
    by (rule sends_mono [OF sends_trans [OF sends_one [OF assms(1)] sends_one [OF assms(2)]]]) simp
qed

lemma Verify_sends:
  "sends env ''POST'' ''/verify''
     (Some (VerifyRequestBody \<lparr>VQ_Email = email, VQ_Timeout = timeout, VQ_SMTPCheck = smtpCheck\<rparr>))
     2 w (snd (Verify env email timeout smtpCheck w))"
proof -
  let ?b = "Some (VerifyRequestBody \<lparr>VQ_Email = email, VQ_Timeout = timeout, VQ_SMTPCheck = smtpCheck\<rparr>)"
  let ?r1 = "request env ''POST'' ''/verify'' ?b
      (Some (decEnvelope (TPointer (TNamed ''emaillistchecker.VerifyResponse''))
               (decPointer zeroVerifyResponse (decVerifyResponse (ParseFloat env)))))
      \<lparr>Data = None\<rparr> w"
  obtain x1 w1 where r1: "?r1 = (x1, w1)" by (cases ?r1)
  let ?r2 = "request env ''POST'' ''/verify'' ?b
      (Some (decVerifyResponse (ParseFloat env))) zeroVerifyResponse w1"
  obtain x2 w2 where r2: "?r2 = (x2, w2)" by (cases ?r2)
  have "snd (Verify env email timeout smtpCheck w) = w1 \<or> snd (Verify env email timeout smtpCheck w) = w2"
    using r1 r2 by (simp add: Verify_def Let_def split: go.splits prod.splits)
  with sends_two [OF r1 r2] show ?thesis by auto
qed

lemma VerifyBatch_sends:
  "sends env ''POST'' ''/verify/batch''
     (Some (BatchRequestBody \<lparr>BQ_Emails = emails, BQ_Name = name, BQ_CallbackURL = callbackURL,
                 BQ_AutoStart = autoStart\<rparr>))
     2 w (snd (VerifyBatch env emails name callbackURL autoStart w))"
proof -
  let ?b = "Some (BatchRequestBody \<lparr>BQ_Emails = emails, BQ_Name = name, BQ_CallbackURL = callbackURL,
                 BQ_AutoStart = autoStart\<rparr>)"
  let ?r1 = "request env ''POST'' ''/verify/batch'' ?b
      (Some (decEnvelope (TPointer (TNamed ''emaillistchecker.BatchResponse''))
               (decPointer zeroBatchResponse decBatchResponse)))
      \<lparr>Data = None\<rparr> w"
  obtain x1 w1 where r1: "?r1 = (x1, w1)" by (cases ?r1)
  let ?r2 = "request env ''POST'' ''/verify/batch'' ?b
      (Some decBatchResponse) zeroBatchResponse w1"
  obtain x2 w2 where r2: "?r2 = (x2, w2)" by (cases ?r2)
  have "snd (VerifyBatch env emails name callbackURL autoStart w) = w1
      \<or> snd (VerifyBatch env emails name callbackURL autoStart w) = w2"
    using r1 r2 by (simp add: VerifyBatch_def Let_def split: go.splits prod.splits)
  with sends_two [OF r1 r2] show ?thesis by auto
qed

lemma GetBatchStatus_sends:
  "sends env ''GET'' (''/verify/batch/'' @ Itoa batchID) None
     2 w (snd (GetBatchStatus env batchID w))"
proof -
  let ?ep = "''/verify/batch/'' @ Itoa batchID"
  let ?r1 = "request env ''GET'' ?ep None
      (Some (decEnvelope (TPointer (TNamed ''emaillistchecker.BatchStatusResponse''))
               (decPointer zeroBatchStatusResponse decBatchStatusResponse)))
      \<lparr>Data = None\<rparr> w"
  obtain x1 w1 where r1: "?r1 = (x1, w1)" by (cases ?r1)
  let ?r2 = "request env ''GET'' ?ep None
      (Some decBatchStatusResponse) zeroBatchStatusResponse w1"
  obtain x2 w2 where r2: "?r2 = (x2, w2)" by (cases ?r2)
  have "snd (GetBatchStatus env batchID w) = w1 \<or> snd (GetBatchStatus env batchID w) = w2"
    using r1 r2 by (simp add: GetBatchStatus_def Let_def split: go.splits prod.splits)
  with sends_two [OF r1 r2] show ?thesis by auto
qed

lemma GetBatchResults_sends:
  "sends env ''GET'' (''/verify/batch/'' @ Itoa batchID @ ''/results?format='' @ format @ ''&filter='' @ filter')
     (None) 1 w (snd (GetBatchResults env batchID format filter' w))"
proof -
  let ?r1 = "request env ''GET'' (''/verify/batch/'' @ Itoa batchID @ ''/results?format='' @ format @ ''&filter='' @ filter')
      (None)
      (Some (decEnvelope TInterface (decInterface (ParseFloat env)))) (\<lparr>Data = INil\<rparr>) w"
  obtain x1 w1 where r1: "?r1 = (x1, w1)" by (cases ?r1)
  have "snd (GetBatchResults env batchID format filter' w) = w1"
    using r1 by (simp add: GetBatchResults_def Let_def split: go.splits prod.splits)
  with sends_one [OF r1] show ?thesis by simp
qed

lemma FindEmail_sends:
  "sends env ''POST'' (''/finder/email'')
     (Some (FindEmailRequestBody \<lparr>FQ_FirstName = firstName, FQ_LastName = lastName, FQ_Domain = domain\<rparr>)) 1 w (snd (FindEmail env firstName lastName domain w))"
proof -
  let ?r1 = "request env ''POST'' (''/finder/email'')
      (Some (FindEmailRequestBody \<lparr>FQ_FirstName = firstName, FQ_LastName = lastName, FQ_Domain = domain\<rparr>))
      (Some (decEnvelope (TMap TString TInterface) (decMap (ParseFloat env)))) (\<lparr>Data = None\<rparr>) w"
  obtain x1 w1 where r1: "?r1 = (x1, w1)" by (cases ?r1)
  have "snd (FindEmail env firstName lastName domain w) = w1"
    using r1 by (simp add: FindEmail_def Let_def split: go.splits prod.splits)
  with sends_one [OF r1] show ?thesis by simp
qed

lemma FindByDomain_sends:
  "sends env ''POST'' (''/finder/domain'')
     (Some (FindByDomainBody domain limit offset)) 1 w (snd (FindByDomain env domain limit offset w))"
proof -
  let ?r1 = "request env ''POST'' (''/finder/domain'')
      (Some (FindByDomainBody domain limit offset))
      (Some (decEnvelope (TMap TString TInterface) (decMap (ParseFloat env)))) (\<lparr>Data = None\<rparr>) w"
  obtain x1 w1 where r1: "?r1 = (x1, w1)" by (cases ?r1)
  have "snd (FindByDomain env domain limit offset w) = w1"
    using r1 by (simp add: FindByDomain_def Let_def split: go.splits prod.splits)
  with sends_one [OF r1] show ?thesis by simp
qed

lemma FindByCompany_sends:
  "sends env ''POST'' (''/finder/company'')
     (Some (FindByCompanyBody company limit)) 1 w (snd (FindByCompany env company limit w))"
proof -
  let ?r1 = "request env ''POST'' (''/finder/company'')
      (Some (FindByCompanyBody company limit))
      (Some (decEnvelope (TMap TString TInterface) (decMap (ParseFloat env)))) (\<lparr>Data = None\<rparr>) w"
  obtain x1 w1 where r1: "?r1 = (x1, w1)" by (cases ?r1)
  have "snd (FindByCompany env company limit w) = w1"
    using r1 by (simp add: FindByCompany_def Let_def split: go.splits prod.splits)
  with sends_one [OF r1] show ?thesis by simp
qed

lemma GetCredits_sends:
  "sends env ''GET'' (''/credits'')
     (None) 1 w (snd (GetCredits env w))"
proof -
  let ?r1 = "request env ''GET'' (''/credits'')
      (None)
      (Some (decEnvelope (TMap TString TInterface) (decMap (ParseFloat env)))) (\<lparr>Data = None\<rparr>) w"
  obtain x1 w1 where r1: "?r1 = (x1, w1)" by (cases ?r1)
  have "snd (GetCredits env w) = w1"
    using r1 by (simp add: GetCredits_def Let_def split: go.splits prod.splits)
  with sends_one [OF r1] show ?thesis by simp
qed

lemma GetUsage_sends:
  "sends env ''GET'' (''/usage'')
     (None) 1 w (snd (GetUsage env w))"
proof -
  let ?r1 = "request env ''GET'' (''/usage'')
      (None)
      (Some (decEnvelope (TMap TString TInterface) (decMap (ParseFloat env)))) (\<lparr>Data = None\<rparr>) w"
  obtain x1 w1 where r1: "?r1 = (x1, w1)" by (cases ?r1)
  have "snd (GetUsage env w) = w1"
    using r1 by (simp add: GetUsage_def Let_def split: go.splits prod.splits)
  with sends_one [OF r1] show ?thesis by simp
qed

lemma GetLists_sends:
  "sends env ''GET'' (''/lists'')
     (None) 1 w (snd (GetLists env w))"
proof -
  let ?r1 = "request env ''GET'' (''/lists'')
      (None)
      (Some (decEnvelope (TSlice TInterface) (decInterfaceSlice (ParseFloat env)))) (\<lparr>Data = None\<rparr>) w"
  obtain x1 w1 where r1: "?r1 = (x1, w1)" by (cases ?r1)
  have "snd (GetLists env w) = w1"
    using r1 by (simp add: GetLists_def Let_def split: go.splits prod.splits)
  with sends_one [OF r1] show ?thesis by simp
qed

lemma DeleteList_sends:
  "sends env ''DELETE'' (''/lists/'' @ Itoa listID)
     (None) 1 w (snd (DeleteList env listID w))"
proof -
  let ?r1 = "request env ''DELETE'' (''/lists/'' @ Itoa listID)
      (None)
      (None :: unit dec option) (()) w"
  obtain x1 w1 where r1: "?r1 = (x1, w1)" by (cases ?r1)
  have "snd (DeleteList env listID w) = w1"
    using r1 by (simp add: DeleteList_def Let_def split: go.splits prod.splits)
  with sends_one [OF r1] show ?thesis by simp
qed


lemma snd_returning: "snd (returning mk r) = snd r"
  by (simp add: returning_def split: go.splits prod.splits)

lemma VerifyBatchFile_world:
  "snd (VerifyBatchFile env filePath name callbackURL autoStart w) = w \<or>
   (\<exists>req contents.
      snd (VerifyBatchFile env filePath name callbackURL autoStart w) = w\<lparr>sent := sent w @ [req]\<rparr> \<and>
      OpenFile env filePath = Contents contents \<and>
      req = \<lparr>Method = ''POST'', URL = baseURL (client w) @ ''/verify/batch/upload'',
             Header = [''Authorization'' \<mapsto> [''Bearer '' @ apiKey (client w)],
                       ''Content-Type'' \<mapsto> [FormDataContentType (Boundary env)],
                       ''User-Agent'' \<mapsto> [''EmailListChecker-Go/1.0.0'']],
             Body = MultipartBody (Boundary env)
                      (upload_parts filePath contents name callbackURL autoStart)\<rparr>)"
  by (auto simp: VerifyBatchFile_def NewRequest_def Do_def Header_Set_def Let_def
      split: fsfile.splits option.splits sum.splits)

lemma sends_URL:
  assumes "sends env m ep b n w w'"
  shows "\<exists>rs. w' = w\<lparr>sent := sent w @ rs\<rparr> \<and> length rs \<le> n \<and>
              (\<forall>r \<in> set rs. URL r = baseURL (client w) @ ep)"
proof -
  from assms obtain rs where "w' = w\<lparr>sent := sent w @ rs\<rparr>" "length rs \<le> n"
    "\<forall>r \<in> set rs. request_build env (client w) m ep b = Inr r"
    unfolding sends_def by blast
  then show ?thesis
    by (intro exI [of _ rs]) (auto dest: request_build_Inr(1))
qed

lemma sends_more:
  assumes "sends env m ep b n w w'" and "n \<le> 2"
  shows "\<exists>rs. w' = w\<lparr>sent := sent w @ rs\<rparr> \<and> length rs \<le> 2 \<and>
              (\<forall>r \<in> set rs. URL r = baseURL (client w) @ ep)"
  using sends_URL [OF sends_mono [OF assms]] .

lemma perform_world:
  "\<exists>rs. snd (perform env c w) = w\<lparr>sent := sent w @ rs\<rparr> \<and> length rs \<le> 2 \<and>
        (\<forall>r \<in> set rs. URL r = baseURL (client w) @ endpoint_of c)"
proof (cases c)
  case (CallVerify email timeout smtpCheck)
  then show ?thesis
    using sends_more [OF Verify_sends [of env email timeout smtpCheck w]]
    by (simp add: perform_def snd_returning endpoint_of_def)
next
  case (CallVerifyBatch emails name callbackURL autoStart)
  then show ?thesis
    using sends_more [OF VerifyBatch_sends [of env emails name callbackURL autoStart w]]
    by (simp add: perform_def snd_returning endpoint_of_def)
next
  case (CallVerifyBatchFile filePath name callbackURL autoStart)
  from VerifyBatchFile_world [of env filePath name callbackURL autoStart w]
  have "\<exists>rs. snd (VerifyBatchFile env filePath name callbackURL autoStart w) = w\<lparr>sent := sent w @ rs\<rparr>
          \<and> length rs \<le> 2 \<and> (\<forall>r \<in> set rs. URL r = baseURL (client w) @ ''/verify/batch/upload'')"
  proof
    assume "snd (VerifyBatchFile env filePath name callbackURL autoStart w) = w"
    then show ?thesis by (intro exI [of _ "[]"]) simp
  next
    assume "\<exists>req contents.
      snd (VerifyBatchFile env filePath name callbackURL autoStart w) = w\<lparr>sent := sent w @ [req]\<rparr> \<and>
      OpenFile env filePath = Contents contents \<and>
      req = \<lparr>Method = ''POST'', URL = baseURL (client w) @ ''/verify/batch/upload'',
             Header = [''Authorization'' \<mapsto> [''Bearer '' @ apiKey (client w)],
                       ''Content-Type'' \<mapsto> [FormDataContentType (Boundary env)],
                       ''User-Agent'' \<mapsto> [''EmailListChecker-Go/1.0.0'']],
             Body = MultipartBody (Boundary env)
                      (upload_parts filePath contents name callbackURL autoStart)\<rparr>"
    then obtain req where "snd (VerifyBatchFile env filePath name callbackURL autoStart w) = w\<lparr>sent := sent w @ [req]\<rparr>"
      and "URL req = baseURL (client w) @ ''/verify/batch/upload''" by auto
    then show ?thesis by (intro exI [of _ "[req]"]) simp
  qed
  with CallVerifyBatchFile show ?thesis
    by (simp add: perform_def snd_returning endpoint_of_def)
next
  case (CallGetBatchStatus batchID)
  then show ?thesis
    using sends_more [OF GetBatchStatus_sends [of env batchID w]]
    by (simp add: perform_def snd_returning endpoint_of_def)
next
  case (CallGetBatchResults batchID format filter')
  then show ?thesis
    using sends_more [OF GetBatchResults_sends [of env batchID format filter' w]]
    by (simp add: perform_def snd_returning endpoint_of_def)
next
  case (CallFindEmail firstName lastName domain)
  then show ?thesis
    using sends_more [OF FindEmail_sends [of env firstName lastName domain w]]
    by (simp add: perform_def snd_returning endpoint_of_def)
next
  case (CallFindByDomain domain limit offset)
  then show ?thesis
    using sends_more [OF FindByDomain_sends [of env domain limit offset w]]
    by (simp add: perform_def snd_returning endpoint_of_def)
next
  case (CallFindByCompany company limit)
  then show ?thesis
    using sends_more [OF FindByCompany_sends [of env company limit w]]
    by (simp add: perform_def snd_returning endpoint_of_def)
next
  case CallGetCredits
  then show ?thesis
    using sends_more [OF GetCredits_sends [of env w]]
    by (simp add: perform_def snd_returning endpoint_of_def)
next
  case CallGetUsage
  then show ?thesis
    using sends_more [OF GetUsage_sends [of env w]]
    by (simp add: perform_def snd_returning endpoint_of_def)
next
  case CallGetLists
  then show ?thesis
    using sends_more [OF GetLists_sends [of env w]]
    by (simp add: perform_def snd_returning endpoint_of_def)
next
  case (CallDeleteList listID)
  have "snd (perform env c w) = snd (DeleteList env listID w)"
    by (cases "DeleteList env listID w") (simp add: perform_def CallDeleteList split: go.splits)
  then show ?thesis
    using sends_more [OF DeleteList_sends [of env listID w]] CallDeleteList
    by (simp add: endpoint_of_def)
qed

lemma endpoint_of_shape: "\<exists>c' rest. endpoint_of c = CHR ''/'' # c' # rest \<and> c' \<noteq> CHR ''/''"
  by (cases c) (simp_all add: endpoint_of_def)

lemma no_double_slash_at_join:
  assumes "\<not> trailing_slash base" and "c' \<noteq> CHR ''/''"
  shows "\<not> double_slash_at (base @ CHR ''/'' # c' # rest) (length base - 1)"
    and "\<not> double_slash_at (base @ CHR ''/'' # c' # rest) (length base)"
proof -
  show "\<not> double_slash_at (base @ CHR ''/'' # c' # rest) (length base)"
    using assms(2) by (simp add: double_slash_at_def nth_append)
  show "\<not> double_slash_at (base @ CHR ''/'' # c' # rest) (length base - 1)"
  proof (cases "base = []")
    case True
    then show ?thesis using assms(2) by (simp add: double_slash_at_def)
  next
    case False
    then have "(base @ CHR ''/'' # c' # rest) ! (length base - 1) = last base"
      by (simp add: nth_append last_conv_nth)
    with False assms(1) show ?thesis
      by (simp add: double_slash_at_def trailing_slash_def)
  qed
qed

section \<open>Atoi and Itoa\<close>

lemma digit_val_digit_char: "d < 10 \<Longrightarrow> digit_val (digit_char d) = Some d"
proof -
  assume "d < 10"
  then have "d = 0 \<or> d = 1 \<or> d = 2 \<or> d = 3 \<or> d = 4 \<or> d = 5 \<or> d = 6 \<or> d = 7 \<or> d = 8 \<or> d = 9"
    by arith
  then show ?thesis
    by (elim disjE) (simp_all add: digit_val_def digit_char_def)
qed

lemma parse_digits_snoc:
  "parse_digits acc (xs @ [c]) =
     (case parse_digits acc xs of
        None \<Rightarrow> None
      | Some a \<Rightarrow> (case digit_val c of None \<Rightarrow> None | Some d \<Rightarrow> Some (a * 10 + d)))"
  by (induction xs arbitrary: acc) (auto split: option.splits)

lemma parse_digits_FormatUint: "parse_digits 0 (FormatUint n) = Some n"
proof (induction n rule: FormatUint.induct)
  case (1 n)
  show ?case
  proof (cases "n < 10")
    case True
    then show ?thesis
      by (subst FormatUint.simps) (simp add: digit_val_digit_char)
  next
    case False
    with 1 have "parse_digits 0 (FormatUint (n div 10)) = Some (n div 10)" by simp
    with False show ?thesis
      by (subst FormatUint.simps) (simp add: parse_digits_snoc digit_val_digit_char)
  qed
qed

lemma FormatUint_not_empty: "FormatUint n \<noteq> []"
  by (subst FormatUint.simps) simp

lemma hd_FormatUint: "digit_val (hd (FormatUint n)) \<noteq> None"
proof (induction n rule: FormatUint.induct)
  case (1 n)
  show ?case
  proof (cases "n < 10")
    case True
    then show ?thesis
      by (subst FormatUint.simps) (simp add: digit_val_digit_char)
  next
    case False
    with 1 have "digit_val (hd (FormatUint (n div 10))) \<noteq> None" by simp
    with False show ?thesis
      by (subst FormatUint.simps) (simp add: FormatUint_not_empty)
  qed
qed

lemma ParseUint_FormatUint: "ParseUint (FormatUint n) = Some n"
  by (simp add: ParseUint_def FormatUint_not_empty parse_digits_FormatUint)

lemma Atoi_FormatUint:
  assumes "n < 2 ^ 63"
  shows "Atoi (FormatUint n) = Some (int n)"
proof -
  obtain c cs where s: "FormatUint n = c # cs"
    using FormatUint_not_empty [of n] by (cases "FormatUint n") auto
  have "digit_val c \<noteq> None" using hd_FormatUint [of n] s by simp
  then have "c \<noteq> CHR ''-''" and "c \<noteq> CHR ''+''"
    by (auto simp: digit_val_def)
  with s assms ParseUint_FormatUint [of n] show ?thesis
    by (simp add: Atoi_def)
qed

lemma Atoi_Itoa:
  assumes "- (2 ^ 63) \<le> i" and "i < 2 ^ 63"
  shows "Atoi (Itoa i) = Some i"
proof (cases "i < 0")
  case True
  have "nat (- i) \<le> 2 ^ 63" using assms(1) by (simp add: nat_le_iff)
  with True show ?thesis
    by (simp add: Itoa_def Atoi_def ParseUint_FormatUint)
next
  case False
  then have "nat i < 2 ^ 63" using assms(2) by (simp add: nat_less_iff)
  from Atoi_FormatUint [OF this] False show ?thesis
    by (simp add: Itoa_def)
qed

section \<open>Facts about decoding and classification\<close>








lemma decMembers_upload_nil:
  assumes "\<forall>kv \<in> set kvs. fold_key (fst kv) = ''data'' \<longrightarrow> snd kv = JNull"
    and "\<forall>kv \<in> set kvs. fold_key (fst kv) = ''success'' \<longrightarrow>
           snd kv = JNull \<or> (\<exists>b. snd kv = JBool b)"
    and "UR_Data r = None"
  shows "snd (decMembers upload_result_field kvs r) = None \<and>
         UR_Data (fst (decMembers upload_result_field kvs r)) = None"
  using assms
proof (induction kvs arbitrary: r)
  case Nil
  then show ?case by simp
next
  case (Cons kv kvs)
  obtain r' e where step: "upload_result_field (fst kv) (snd kv) r = (r', e)"
    by (cases "upload_result_field (fst kv) (snd kv) r")
  have "e = None \<and> UR_Data r' = None"
    using step Cons.prems
    by (auto simp: upload_result_field_def Let_def decBool_def decPointer_def
        split: if_splits prod.splits)
  moreover from this Cons.IH [of r'] Cons.prems
  have "snd (decMembers upload_result_field kvs r') = None \<and>
        UR_Data (fst (decMembers upload_result_field kvs r')) = None"
    by simp
  ultimately show ?case
    using step by (simp add: saveError_def split: prod.splits)
qed

lemma decUploadResult_lacks_data:
  assumes "lacks_data j"
    and "success_is_bool j"
    and "UR_Data r = None"
  shows "snd (decUploadResult j r) = None \<and> UR_Data (fst (decUploadResult j r)) = None"
proof (cases j)
  case JNull
  with assms(3) show ?thesis by (simp add: decUploadResult_def decStruct_def)
next
  case (JObject kvs)
  with assms(1) have data: "\<forall>kv \<in> set kvs. fold_key (fst kv) = ''data'' \<longrightarrow> snd kv = JNull"
    by (simp add: lacks_data_def)
  have success: "\<forall>kv \<in> set kvs. fold_key (fst kv) = ''success'' \<longrightarrow>
      snd kv = JNull \<or> (\<exists>b. snd kv = JBool b)"
  proof (intro ballI impI)
    fix kv
    assume "kv \<in> set kvs" and "fold_key (fst kv) = ''success''"
    with assms(2) JObject
    have "case snd kv of JNull \<Rightarrow> True | JBool b \<Rightarrow> True | _ \<Rightarrow> False"
      by (simp add: success_is_bool_def)
    then show "snd kv = JNull \<or> (\<exists>b. snd kv = JBool b)"
      by (cases "snd kv") simp_all
  qed
  from decMembers_upload_nil [OF data success assms(3)] JObject
  show ?thesis by (simp add: decUploadResult_def decStruct_def)
qed (use assms(1) in \<open>simp_all add: lacks_data_def\<close>)

lemma request_failure_variant:
  assumes "request_failure env resp body = Returns e"
  shows "variant_of e = spec_variant (RespStatusCode resp)"
  using assms
  by (auto simp: request_failure_def Let_def with_message_def variant_of_def spec_variant_def
      NewAuthenticationError_def NewInsufficientCreditsError_def NewValidationError_def
      NewRateLimitError_def NewAPIError_def
      split: if_splits go.splits)

lemma upload_failure_variant:
  assumes "upload_failure env resp body = Returns e"
  shows "variant_of e =
           (if RespStatusCode resp = 429 then Generic else spec_variant (RespStatusCode resp))"
  using assms
  by (auto simp: upload_failure_def Let_def with_message_def variant_of_def spec_variant_def
      NewAuthenticationError_def NewInsufficientCreditsError_def NewValidationError_def
      NewAPIError_def
      split: if_splits go.splits)

lemma request_failure_undecodable:
  assumes "ParseJSON env body = Inl e"
  shows "\<exists>err x. request_failure env resp body = Returns err \<and> embedded err = Some x \<and>
           ResponseData x = None \<and> StatusCode x = RespStatusCode resp"
  using assms
  by (simp add: request_failure_def Let_def Unmarshal_def payload_message_def with_message_def
      NewAuthenticationError_def NewInsufficientCreditsError_def NewValidationError_def
      NewRateLimitError_def NewAPIError_def embedded_def)

lemma upload_failure_undecodable:
  assumes "ParseJSON env body = Inl e"
  shows "\<exists>err x. upload_failure env resp body = Returns err \<and> embedded err = Some x \<and>
           ResponseData x = None \<and> StatusCode x = RespStatusCode resp"
  using assms
  by (simp add: upload_failure_def Let_def Unmarshal_def payload_message_def with_message_def
      NewAuthenticationError_def NewInsufficientCreditsError_def NewValidationError_def
      NewAPIError_def embedded_def)

lemma issued_at_most_two: "length (issued env c w) \<le> 2"
proof -
  obtain rs where "snd (perform env c w) = w\<lparr>sent := sent w @ rs\<rparr>" and "length rs \<le> 2"
    using perform_world [of env c w] by blast
  then show ?thesis by (simp add: issued_def)
qed

lemma perform_sends:
  assumes "\<not> multipart c"
  shows "\<exists>m b. sends env m (endpoint_of c) b 2 w (snd (perform env c w))"
proof (cases c)
  case (CallVerify email timeout smtpCheck)
  have "sends env ''POST'' (endpoint_of c) (Some (VerifyRequestBody \<lparr>VQ_Email = email, VQ_Timeout = timeout, VQ_SMTPCheck = smtpCheck\<rparr>)) 2 w (snd (perform env c w))"
    using sends_mono [OF Verify_sends [of env email timeout smtpCheck w], of 2]
    by (simp add: CallVerify perform_def snd_returning endpoint_of_def)
  then show ?thesis by blast
next
  case (CallVerifyBatch emails name callbackURL autoStart)
  have "sends env ''POST'' (endpoint_of c) (Some (BatchRequestBody \<lparr>BQ_Emails = emails, BQ_Name = name, BQ_CallbackURL = callbackURL, BQ_AutoStart = autoStart\<rparr>)) 2 w (snd (perform env c w))"
    using sends_mono [OF VerifyBatch_sends [of env emails name callbackURL autoStart w], of 2]
    by (simp add: CallVerifyBatch perform_def snd_returning endpoint_of_def)
  then show ?thesis by blast
next
  case (CallVerifyBatchFile filePath name callbackURL autoStart)
  with assms show ?thesis by (simp add: multipart_def)
next
  case (CallGetBatchStatus batchID)
  have "sends env ''GET'' (endpoint_of c) (None) 2 w (snd (perform env c w))"
    using sends_mono [OF GetBatchStatus_sends [of env batchID w], of 2]
    by (simp add: CallGetBatchStatus perform_def snd_returning endpoint_of_def)
  then show ?thesis by blast
next
  case (CallGetBatchResults batchID format filter')
  have "sends env ''GET'' (endpoint_of c) (None) 2 w (snd (perform env c w))"
    using sends_mono [OF GetBatchResults_sends [of env batchID format filter' w], of 2]
    by (simp add: CallGetBatchResults perform_def snd_returning endpoint_of_def)
  then show ?thesis by blast
next
  case (CallFindEmail firstName lastName domain)
  have "sends env ''POST'' (endpoint_of c) (Some (FindEmailRequestBody \<lparr>FQ_FirstName = firstName, FQ_LastName = lastName, FQ_Domain = domain\<rparr>)) 2 w (snd (perform env c w))"
    using sends_mono [OF FindEmail_sends [of env firstName lastName domain w], of 2]
    by (simp add: CallFindEmail perform_def snd_returning endpoint_of_def)
  then show ?thesis by blast
next
  case (CallFindByDomain domain limit offset)
  have "sends env ''POST'' (endpoint_of c) (Some (FindByDomainBody domain limit offset)) 2 w (snd (perform env c w))"
    using sends_mono [OF FindByDomain_sends [of env domain limit offset w], of 2]
    by (simp add: CallFindByDomain perform_def snd_returning endpoint_of_def)
  then show ?thesis by blast
next
  case (CallFindByCompany company limit)
  have "sends env ''POST'' (endpoint_of c) (Some (FindByCompanyBody company limit)) 2 w (snd (perform env c w))"
    using sends_mono [OF FindByCompany_sends [of env company limit w], of 2]
    by (simp add: CallFindByCompany perform_def snd_returning endpoint_of_def)
  then show ?thesis by blast
next
  case CallGetCredits
  have "sends env ''GET'' (endpoint_of c) (None) 2 w (snd (perform env c w))"
    using sends_mono [OF GetCredits_sends [of env w], of 2]
    by (simp add: CallGetCredits perform_def snd_returning endpoint_of_def)
  then show ?thesis by blast
next
  case CallGetUsage
  have "sends env ''GET'' (endpoint_of c) (None) 2 w (snd (perform env c w))"
    using sends_mono [OF GetUsage_sends [of env w], of 2]
    by (simp add: CallGetUsage perform_def snd_returning endpoint_of_def)
  then show ?thesis by blast
next
  case CallGetLists
  have "sends env ''GET'' (endpoint_of c) (None) 2 w (snd (perform env c w))"
    using sends_mono [OF GetLists_sends [of env w], of 2]
    by (simp add: CallGetLists perform_def snd_returning endpoint_of_def)
  then show ?thesis by blast
next
  case (CallDeleteList listID)
  have "snd (perform env c w) = snd (DeleteList env listID w)"
    by (cases "DeleteList env listID w") (simp add: perform_def CallDeleteList split: go.splits)
  then have "sends env ''DELETE'' (endpoint_of c) (None) 2 w (snd (perform env c w))"
    using sends_mono [OF DeleteList_sends [of env listID w], of 2]
    by (simp add: CallDeleteList endpoint_of_def)
  then show ?thesis by blast
qed

lemma issued_headers:
  "\<forall>r \<in> set (issued env c w).
     Header r ''Authorization'' = Some [''Bearer '' @ apiKey (client w)] \<and>
     Header r ''User-Agent'' = Some [''EmailListChecker-Go/1.0.0''] \<and>
     (if multipart c
      then Header r ''Content-Type'' = Some [FormDataContentType (Boundary env)] \<and>
           Header r ''Accept'' = None
      else Header r ''Content-Type'' = Some [''application/json''] \<and>
           Header r ''Accept'' = Some [''application/json''])"
proof (cases "multipart c")
  case True
  then obtain filePath name callbackURL autoStart
    where c: "c = CallVerifyBatchFile filePath name callbackURL autoStart"
    by (cases c) (simp_all add: multipart_def)
  from VerifyBatchFile_world [of env filePath name callbackURL autoStart w]
  show ?thesis
    by (auto simp: c issued_def perform_def snd_returning multipart_def)
next
  case False
  then obtain m b rs where "snd (perform env c w) = w\<lparr>sent := sent w @ rs\<rparr>"
    and "\<forall>r \<in> set rs. request_build env (client w) m (endpoint_of c) b = Inr r"
    using perform_sends [of c env w] unfolding sends_def by blast
  with False show ?thesis
    by (auto simp: issued_def dest!: request_build_Inr(3))
qed

lemma sends_length:
  assumes "sends env m ep b n w w'"
  shows "length (sent w') \<le> length (sent w) + n"
  using assms unfolding sends_def by auto

lemma issued_at_most_one:
  assumes "\<not> falls_back c"
  shows "length (issued env c w) \<le> 1"
proof (cases c)
  case (CallVerify email timeout smtpCheck)
  with assms show ?thesis by (simp add: falls_back_def)
next
  case (CallVerifyBatch emails name callbackURL autoStart)
  with assms show ?thesis by (simp add: falls_back_def)
next
  case (CallVerifyBatchFile filePath name callbackURL autoStart)
  from VerifyBatchFile_world [of env filePath name callbackURL autoStart w]
  show ?thesis
    by (auto simp: CallVerifyBatchFile issued_def perform_def snd_returning)
next
  case (CallGetBatchStatus batchID)
  with assms show ?thesis by (simp add: falls_back_def)
next
  case (CallGetBatchResults batchID format filter')
  from sends_length [OF GetBatchResults_sends [of env batchID format filter' w]]
  show ?thesis
    by (simp add: CallGetBatchResults issued_def perform_def snd_returning)
next
  case (CallFindEmail firstName lastName domain)
  from sends_length [OF FindEmail_sends [of env firstName lastName domain w]]
  show ?thesis
    by (simp add: CallFindEmail issued_def perform_def snd_returning)
next
  case (CallFindByDomain domain limit offset)
  from sends_length [OF FindByDomain_sends [of env domain limit offset w]]
  show ?thesis
    by (simp add: CallFindByDomain issued_def perform_def snd_returning)
next
  case (CallFindByCompany company limit)
  from sends_length [OF FindByCompany_sends [of env company limit w]]
  show ?thesis
    by (simp add: CallFindByCompany issued_def perform_def snd_returning)
next
  case CallGetCredits
  from sends_length [OF GetCredits_sends [of env w]]
  show ?thesis
    by (simp add: CallGetCredits issued_def perform_def snd_returning)
next
  case CallGetUsage
  from sends_length [OF GetUsage_sends [of env w]]
  show ?thesis
    by (simp add: CallGetUsage issued_def perform_def snd_returning)
next
  case CallGetLists
  from sends_length [OF GetLists_sends [of env w]]
  show ?thesis
    by (simp add: CallGetLists issued_def perform_def snd_returning)
next
  case (CallDeleteList listID)
  have "snd (perform env c w) = snd (DeleteList env listID w)"
    by (cases "DeleteList env listID w") (simp add: perform_def CallDeleteList split: go.splits)
  with sends_length [OF DeleteList_sends [of env listID w]]
  show ?thesis by (simp add: issued_def)
qed

text \<open>The enveloped answer: \<open>Verify\<close> returns what the \<open>data\<close> member decodes to, after
  one request.\<close>

lemma Verify_envelope:
  assumes "ParseURL env (baseURL (client w) @ ''/verify'') = None"
    and "\<forall>req. RoundTrip env (httpClient (client w)) (sent w) req = Answered resp"
    and "RespStatusCode resp < 400"
    and "RespReadError resp = None"
    and "RespBody resp \<noteq> []"
    and "ParseJSON env (RespBody resp) = Inr (JObject [(''data'', JObject members)])"
    and "decMembers (VerifyResponse_field (ParseFloat env)) members zeroVerifyResponse = (r, None)"
  shows "fst (Verify env email timeout smtpCheck w) = Returns (Some r, None)"
    and "length (sent (snd (Verify env email timeout smtpCheck w))) = Suc (length (sent w))"
proof -
  let ?b = "Some (VerifyRequestBody
      \<lparr>VQ_Email = email, VQ_Timeout = timeout, VQ_SMTPCheck = smtpCheck\<rparr>)"
  let ?d = "decEnvelope (TPointer (TNamed ''emaillistchecker.VerifyResponse''))
               (decPointer zeroVerifyResponse (decVerifyResponse (ParseFloat env)))"
  obtain req where build: "request_build env (client w) ''POST'' ''/verify'' ?b = Inr req"
    using request_build_ok [OF assms(1)] by blast
  have trip: "RoundTrip env (httpClient (client w)) (sent w) req = Answered resp"
    using assms(2) by simp
  have "fold_key ''data'' = ''data''"
    by (simp add: lower_char_def)
  then have "?d (JObject [(''data'', JObject members)]) \<lparr>Data = None\<rparr> = (\<lparr>Data = Some r\<rparr>, None)"
    using assms(7)
    by (simp add: decEnvelope_def decStruct_def envelope_field_def decPointer_def
        decVerifyResponse_def saveError_def)
  then have "request_receive env (Some ?d) \<lparr>Data = None\<rparr> (Answered resp) =
      Returns (\<lparr>Data = Some r\<rparr>, None)"
    using assms(3-6) by (simp add: request_receive_def ReadAll_def Unmarshal_def)
  with request_answered [OF build trip, of "Some ?d" "\<lparr>Data = None\<rparr>"]
  have first: "request env ''POST'' ''/verify'' ?b (Some ?d) \<lparr>Data = None\<rparr> w =
      (Returns (\<lparr>Data = Some r\<rparr>, None), w\<lparr>sent := sent w @ [req]\<rparr>)"
    by simp
  from first show "fst (Verify env email timeout smtpCheck w) = Returns (Some r, None)"
    by (simp add: Verify_def)
  from first
  show "length (sent (snd (Verify env email timeout smtpCheck w))) = Suc (length (sent w))"
    by (simp add: Verify_def)
qed

section \<open>Evaluation on examples\<close>

text \<open>The definitions that running an operation against the scripted server unfolds.\<close>

lemmas run_defs =
  scripted_def answer_def fresh_def NewClient_def NewClientWithConfig_def DefaultBaseURL_def
  DefaultTimeout_def TrimRight_def perform_def issued_def returning_def pointer_value_def
  interface_value_def request_def request_build_def request_receive_def request_failure_def
  Marshal_def NewRequest_def Do_def ReadAll_def Unmarshal_def scan_def Header_Set_def
  Header_Get_def with_message_def payload_message_def dynamic_type_def lower_char_def saveError_def
  decEnvelope_def decStruct_def envelope_field_def decPointer_def decMap_def decInterface_def
  decInterfaceSlice_def decString_def decBool_def decInt_def decFloat64_def decSlice_def
  type_error_def json_kind_def iface_error_def
  Itoa_def FormatUint.simps digit_char_def Atoi_def ParseUint_def digit_val_def
  NewAuthenticationError_def NewInsufficientCreditsError_def NewRateLimitError_def
  NewValidationError_def NewAPIError_def

lemmas op_defs =
  Verify_def VerifyBatch_def VerifyBatchFile_def GetBatchStatus_def GetBatchResults_def
  FindEmail_def FindByDomain_def FindByCompany_def GetCredits_def GetUsage_def GetLists_def
  DeleteList_def upload_receive_def upload_failure_def upload_parts_def decUploadResult_def
  upload_result_field_def decVerifyResponse_def VerifyResponse_field_def zeroVerifyResponse_def
  decBatchResponse_def BatchResponse_field_def zeroBatchResponse_def
  decBatchStatusResponse_def BatchStatusResponse_field_def zeroBatchStatusResponse_def
  Base_def FormatBool_def FormDataContentType_def tspecials_def

text \<open>The first end-to-end scenario of the specification, without the score.\<close>

lemma Verify_envelope_example:
  "perform (scripted [answer 200 [] ''{\"data\":{\"email\":\"a@b.com\",\"result\":\"deliverable\"}}''])
     (CallVerify ''a@b.com'' None True) (fresh (NewClient ''key'')) =
   (Returns (VerifyValue (zeroVerifyResponse\<lparr>VR_Email := ''a@b.com'', VR_Result := ''deliverable''\<rparr>),
             None),
    \<lparr>client = NewClient ''key'',
     sent = [\<lparr>Method = ''POST'', URL = ''https://platform.emaillistchecker.io/api/v1/verify'',
              Header = [''Authorization'' \<mapsto> [''Bearer key''],
                        ''Content-Type'' \<mapsto> [''application/json''],
                        ''Accept'' \<mapsto> [''application/json''],
                        ''User-Agent'' \<mapsto> [''EmailListChecker-Go/1.0.0'']],
              Body = JSONBody (JObject [(''email'', JString ''a@b.com''),
                                        (''smtp_check'', JBool True)])\<rparr>]\<rparr>)"
  by (simp add: run_defs op_defs)

text \<open>A key spelt with the long s selects the \<open>Success\<close> field, as in the decoder.\<close>

lemma upload_long_s_key_example:
  "fold_key ([CHR 0xC5, CHR 0xBF] @ ''uccess'') = ''success''
   \<and> fst (VerifyBatchFile
          (scripted [answer 200 [] (''{\"'' @ [CHR 0xC5, CHR 0xBF] @ ''uccess\":\"yes\"}'')])
          ''emails.csv'' None None True (fresh (NewClient ''key''))) =
       Returns (None, Some (UnmarshalTypeError ''string'' TBool))"
  by (simp add: run_defs op_defs)

section \<open>The claims\<close>

text \<open>
  C1. The claim: every operation, the file upload included, turns a 429 response into a
  rate-limit error. The switch of \<open>VerifyBatchFile\<close> has no case for 429: on the
  response of the specification's own scenario (status 429, \<open>Retry-After: 30\<close>, body
  \<open>{"error":"slow down"}\<close>) the upload returns the generic API error, where the table
  asks for the rate-limit error, which \<open>VerifyBatch\<close> returns on the same response.
\<close>

theorem upload_rate_limit_is_generic:
  "fst (perform (scripted [answer 429 [(''Retry-After'', ''30'')] ''{\"error\":\"slow down\"}''])
          (CallVerifyBatchFile ''emails.csv'' None None True) (fresh (NewClient ''key''))) =
     Returns (NilValue, Some (APIError
       \<lparr>Message = ''slow down'', StatusCode = 429,
        ResponseData = Some [''error'' \<mapsto> IString ''slow down'']\<rparr>))
   \<and> variant_of (APIError
         \<lparr>Message = ''slow down'', StatusCode = 429,
          ResponseData = Some [''error'' \<mapsto> IString ''slow down'']\<rparr>) = Generic
   \<and> spec_variant 429 = RateLimit
   \<and> fst (perform (scripted [answer 429 [(''Retry-After'', ''30'')] ''{\"error\":\"slow down\"}''])
          (CallVerifyBatch (Some [''a@b.com'']) [] [] True) (fresh (NewClient ''key''))) =
     Returns (NilValue, Some (RateLimitError
       \<lparr>Message = ''Rate limit exceeded. Retry after 30 seconds'', StatusCode = 429,
        ResponseData = Some [''error'' \<mapsto> IString ''slow down'']\<rparr> 30))"
  by (simp add: run_defs op_defs variant_of_def spec_variant_def)

text \<open>
  C2. The claim: every operation performs exactly one round trip and never issues a
  second request. When the server answers \<open>Verify\<close> with a success whose body is the
  bare object, the fallback calls \<open>request\<close> again: the transport receives the same
  \<open>POST /verify\<close> twice within the one call.
\<close>

theorem verify_fallback_sends_twice:
  "map Method (issued
      (scripted [answer 200 [] ''{\"email\":\"a@b.com\",\"result\":\"deliverable\"}'',
                 answer 200 [] ''{\"email\":\"a@b.com\",\"result\":\"deliverable\"}''])
      (CallVerify ''a@b.com'' None True) (fresh (NewClient ''key''))) = [''POST'', ''POST'']
   \<and> map URL (issued
      (scripted [answer 200 [] ''{\"email\":\"a@b.com\",\"result\":\"deliverable\"}'',
                 answer 200 [] ''{\"email\":\"a@b.com\",\"result\":\"deliverable\"}''])
      (CallVerify ''a@b.com'' None True) (fresh (NewClient ''key''))) =
     [''https://platform.emaillistchecker.io/api/v1/verify'',
      ''https://platform.emaillistchecker.io/api/v1/verify'']"
  by (simp add: run_defs op_defs)

text \<open>
  C3. The claim: a success response that is the bare object decodes to that object,
  from the body already fetched, and the fallback causes no different outcome. The
  fallback decodes the body of a second response instead. When the server answers the
  first request with the bare object and the second with 402, \<open>Verify\<close> returns a
  zero-valued result together with the insufficient-credits error, and nothing of the
  object it had received.
\<close>

theorem verify_fallback_reads_second_response:
  "fst (perform
      (scripted [answer 200 [] ''{\"email\":\"a@b.com\",\"result\":\"deliverable\"}'',
                 answer 402 [] ''Payment Required''])
      (CallVerify ''a@b.com'' None True) (fresh (NewClient ''key''))) =
     Returns (VerifyValue zeroVerifyResponse, Some (InsufficientCreditsError
       \<lparr>Message = ''Insufficient credits'', StatusCode = 402, ResponseData = None\<rparr>))
   \<and> length (issued
      (scripted [answer 200 [] ''{\"email\":\"a@b.com\",\"result\":\"deliverable\"}'',
                 answer 402 [] ''Payment Required''])
      (CallVerify ''a@b.com'' None True) (fresh (NewClient ''key''))) = 2"
  by (simp add: run_defs op_defs)

text \<open>
  C4. The claim: every request carries \<open>Accept: application/json\<close>. \<open>request\<close>
  sets the header; \<open>VerifyBatchFile\<close> sets \<open>Authorization\<close>, \<open>Content-Type\<close> and
  \<open>User-Agent\<close> only, so the upload request has no \<open>Accept\<close> header.
\<close>

theorem upload_request_has_no_accept_header:
  "map Header (issued (scripted [answer 200 [] ''{\"id\":7,\"status\":\"pending\"}''])
      (CallVerifyBatchFile ''emails.csv'' None None True) (fresh (NewClient ''key''))) =
     [[''Authorization'' \<mapsto> [''Bearer key''],
       ''Content-Type'' \<mapsto> [''multipart/form-data; boundary=7d0f''],
       ''User-Agent'' \<mapsto> [''EmailListChecker-Go/1.0.0'']]]
   \<and> header_values ''Accept'' (issued (scripted [answer 200 [] ''{\"id\":7,\"status\":\"pending\"}''])
      (CallVerifyBatchFile ''emails.csv'' None None True) (fresh (NewClient ''key''))) = [[]]
   \<and> header_values ''Accept'' (issued (scripted [answer 200 [] ''{\"balance\":\"100\"}''])
      CallGetCredits (fresh (NewClient ''key''))) = [''application/json'']"
  by (simp add: run_defs op_defs header_values_def)

text \<open>
  C5. The claim: classification never crashes, also when the \<open>error\<close> or
  \<open>message\<close> field of the payload is not a string. The type assertion
  \<open>errData["error"].(string)\<close> has no \<open>ok\<close> result: on status 401 with the body
  \<open>{"error":123}\<close> both \<open>request\<close> and \<open>VerifyBatchFile\<close> panic instead of
  returning an error.
\<close>

theorem non_string_error_field_panics:
  "fst (perform (scripted [answer 401 [] ''{\"error\":123}''])
          CallGetCredits (fresh (NewClient ''key''))) =
     Panics ''interface conversion: interface {} is float64, not string''
   \<and> fst (perform (scripted [answer 401 [] ''{\"error\":123}''])
          (CallVerifyBatchFile ''emails.csv'' None None True) (fresh (NewClient ''key''))) =
     Panics ''interface conversion: interface {} is float64, not string''"
  by (simp add: run_defs op_defs)



text \<open>
  C7. The base URL of a client made by either constructor has no trailing slash, and
  \<open>"https://x.io/api/"\<close> becomes \<open>"https://x.io/api"\<close>; no operation changes
  the client; and for a client whose base URL has no trailing slash, the URL of every
  request an operation sends is the base URL followed by the operation's path, which
  begins with a slash, so that neither the slash at the joint nor the character before
  it starts a double slash.
\<close>

theorem base_url_normalised:
  "\<not> trailing_slash (baseURL (NewClientWithConfig key url timeout))
   \<and> \<not> trailing_slash (baseURL (NewClient key))
   \<and> baseURL (NewClientWithConfig key ''https://x.io/api/'' timeout) = ''https://x.io/api''
   \<and> client (snd (perform env c w)) = client w
   \<and> (\<not> trailing_slash (baseURL (client w)) \<longrightarrow>
        (\<forall>r \<in> set (issued env c w).
           URL r = baseURL (client w) @ endpoint_of c
           \<and> take 1 (endpoint_of c) = ''/''
           \<and> \<not> double_slash_at (URL r) (length (baseURL (client w)) - 1)
           \<and> \<not> double_slash_at (URL r) (length (baseURL (client w)))))"
proof -
  obtain rs where rs: "snd (perform env c w) = w\<lparr>sent := sent w @ rs\<rparr>"
    and urls: "\<forall>r \<in> set rs. URL r = baseURL (client w) @ endpoint_of c"
    using perform_world [of env c w] by blast
  obtain c' rest where ep: "endpoint_of c = CHR ''/'' # c' # rest" and c': "c' \<noteq> CHR ''/''"
    using endpoint_of_shape [of c] by blast
  have iss: "issued env c w = rs" using rs by (simp add: issued_def)
  have 1: "\<not> trailing_slash (baseURL (NewClientWithConfig key url timeout))"
    by (simp add: NewClientWithConfig_def TrimRight_no_trailing)
  have 2: "\<not> trailing_slash (baseURL (NewClient key))"
    by (simp add: NewClient_def DefaultBaseURL_def trailing_slash_def)
  have 3: "baseURL (NewClientWithConfig key ''https://x.io/api/'' timeout) = ''https://x.io/api''"
    by (simp add: NewClientWithConfig_def TrimRight_def)
  have 4: "client (snd (perform env c w)) = client w" using rs by simp
  have 5: "\<not> trailing_slash (baseURL (client w)) \<longrightarrow>
        (\<forall>r \<in> set (issued env c w).
           URL r = baseURL (client w) @ endpoint_of c
           \<and> take 1 (endpoint_of c) = ''/''
           \<and> \<not> double_slash_at (URL r) (length (baseURL (client w)) - 1)
           \<and> \<not> double_slash_at (URL r) (length (baseURL (client w))))"
    using urls no_double_slash_at_join [OF _ c', of "baseURL (client w)" rest]
    by (simp add: iss ep)
  from 1 2 3 4 5 show ?thesis by blast
qed

theorem base_url_normalised_witness:
  "trailing_slash (baseURL (client (fresh (NewClientWithConfig ''key'' ''https://x.io/api/'' 30)))) = False
   \<and> map URL (issued (scripted [answer 200 [] ''{\"balance\":\"100\"}'']) CallGetCredits
          (fresh (NewClientWithConfig ''key'' ''https://x.io/api/'' 30))) = [''https://x.io/api/credits'']
   \<and> double_slash_at ''https://x.io/api/credits'' 15 = False
   \<and> double_slash_at ''https://x.io/api/credits'' 16 = False"
  using base_url_normalised [of "''key''" "''https://x.io/api/''" 30
      "scripted [answer 200 [] ''{\"balance\":\"100\"}'']" CallGetCredits
      "fresh (NewClientWithConfig ''key'' ''https://x.io/api/'' 30)"]
  by (simp add: run_defs GetCredits_def endpoint_of_def trailing_slash_def double_slash_at_def)

text \<open>
  C8. When the file cannot be opened, \<open>VerifyBatchFile\<close> returns the error of
  \<open>os.Open\<close>, wrapped, and leaves the world as it was: no request reaches the
  transport.
\<close>

theorem upload_open_failure_is_local:
  assumes "OpenFile env filePath = OpenFails e"
  shows "VerifyBatchFile env filePath name callbackURL autoStart w =
           (Returns (None, Some (Errorf ''failed to open file: '' (OSError e))), w)
         \<and> issued env (CallVerifyBatchFile filePath name callbackURL autoStart) w = []"
  using assms by (simp add: VerifyBatchFile_def issued_def perform_def snd_returning)

theorem upload_open_failure_is_local_witness:
  "OpenFile (scripted []) ''missing.csv'' = OpenFails ''no such file or directory''
   \<and> VerifyBatchFile (scripted []) ''missing.csv'' None None True (fresh (NewClient ''key'')) =
       (Returns (None, Some (Errorf ''failed to open file: ''
          (OSError ''no such file or directory''))), fresh (NewClient ''key''))
   \<and> issued (scripted []) (CallVerifyBatchFile ''missing.csv'' None None True)
         (fresh (NewClient ''key'')) = []"
proof -
  have h: "OpenFile (scripted []) ''missing.csv'' = OpenFails ''no such file or directory''"
    by (simp add: scripted_def)
  from h upload_open_failure_is_local [OF h, where name = None and callbackURL = None
      and autoStart = True and w = "fresh (NewClient ''key'')"]
  show ?thesis by simp
qed

text \<open>
  C9. The claim: a success response to the upload whose JSON body has no \<open>data\<close> field,
  or a null one, gives a \<open>nil\<close> result and a \<open>nil\<close> error. \<open>VerifyBatchFile\<close> returns
  the error of \<open>json.Unmarshal\<close> when there is one (lines 261 to 263), and two kinds of
  body without a \<open>data\<close> field make it fail: an object whose \<open>success\<close> member is not a
  boolean, since the result struct has a \<open>Success bool\<close> field as well, and a JSON
  value that is neither an object nor \<open>null\<close>, such as an array. On \<open>{"success":"yes"}\<close>
  and on \<open>[1]\<close> the call returns a \<open>nil\<close> pointer with a type error.
\<close>

theorem upload_without_data_counterexample:
  "RespStatusCode (answer 200 [] ''{\"success\":\"yes\"}'') = 200
   \<and> ParseJSON (scripted [answer 200 [] ''{\"success\":\"yes\"}'']) ''{\"success\":\"yes\"}'' =
       Inr (JObject [(''success'', JString ''yes'')])
   \<and> fst (VerifyBatchFile (scripted [answer 200 [] ''{\"success\":\"yes\"}'']) ''emails.csv''
          None None True (fresh (NewClient ''key''))) =
       Returns (None, Some (UnmarshalTypeError ''string'' TBool))
   \<and> ParseJSON (scripted [answer 200 [] ''[1]'']) ''[1]'' = Inr (JArray [JNumber ''1''])
   \<and> fst (VerifyBatchFile (scripted [answer 200 [] ''[1]'']) ''emails.csv''
          None None True (fresh (NewClient ''key''))) =
       Returns (None, Some (UnmarshalTypeError ''array''
         (TStruct [(''Success'', TBool, ''json:\"success\"''),
                   (''Data'', TPointer (TNamed ''emaillistchecker.BatchResponse''),
                    ''json:\"data\"'')])))"
  by (simp add: run_defs op_defs)

text \<open>
  C9, as amended. When the body is JSON \<open>null\<close>, or a JSON object in which every
  member named \<open>data\<close> is null and every member named \<open>success\<close> is a boolean or null
  (names compared as the decoder compares them), the call returns a \<open>nil\<close> result and
  a \<open>nil\<close> error after exactly one request: no second request and no decoding of the
  bare payload is attempted.
\<close>

theorem upload_without_data_returns_nil:
  assumes "OpenFile env filePath = Contents contents"
    and "ParseURL env (baseURL (client w) @ ''/verify/batch/upload'') = None"
    and "\<forall>req. RoundTrip env (httpClient (client w)) (sent w) req = Answered resp"
    and "RespStatusCode resp < 400"
    and "RespReadError resp = None"
    and "ParseJSON env (RespBody resp) = Inr j"
    and "lacks_data j"
    and "success_is_bool j"
  shows "fst (VerifyBatchFile env filePath name callbackURL autoStart w) = Returns (None, None)
         \<and> length (issued env (CallVerifyBatchFile filePath name callbackURL autoStart) w) = 1"
proof -
  have dec: "snd (decUploadResult j \<lparr>UR_Success = False, UR_Data = None\<rparr>) = None \<and>
        UR_Data (fst (decUploadResult j \<lparr>UR_Success = False, UR_Data = None\<rparr>)) = None"
    using decUploadResult_lacks_data [OF assms(7,8)] by simp
  obtain result err where pair:
    "decUploadResult j \<lparr>UR_Success = False, UR_Data = None\<rparr> = (result, err)"
    by (cases "decUploadResult j \<lparr>UR_Success = False, UR_Data = None\<rparr>")
  with dec have "err = None" and "UR_Data result = None" by simp_all
  with pair have recv: "upload_receive env (Answered resp) = Returns (None, None)"
    using assms(4,5,6)
    by (simp add: upload_receive_def ReadAll_def Unmarshal_def)
  have "fst (VerifyBatchFile env filePath name callbackURL autoStart w) = Returns (None, None)"
    and "length (sent (snd (VerifyBatchFile env filePath name callbackURL autoStart w))) =
         Suc (length (sent w))"
    using assms(1,2,3) recv
    by (simp_all add: VerifyBatchFile_def NewRequest_def Do_def Let_def)
  then show ?thesis
    by (simp add: issued_def perform_def snd_returning)
qed

theorem upload_without_data_returns_nil_witness:
  "OpenFile (scripted [answer 200 [] ''{\"balance\":\"100\"}'']) ''emails.csv'' = Contents ''a@b.com''
   \<and> ParseJSON (scripted [answer 200 [] ''{\"balance\":\"100\"}'']) ''{\"balance\":\"100\"}'' =
       Inr (JObject [(''balance'', JString ''100'')])
   \<and> fst (VerifyBatchFile (scripted [answer 200 [] ''{\"balance\":\"100\"}'']) ''emails.csv''
          None None True (fresh (NewClient ''key''))) = Returns (None, None)
   \<and> length (issued (scripted [answer 200 [] ''{\"balance\":\"100\"}''])
          (CallVerifyBatchFile ''emails.csv'' None None True) (fresh (NewClient ''key''))) = 1
   \<and> ParseJSON (scripted [answer 200 [] ''null'']) ''null'' = Inr JNull
   \<and> fst (VerifyBatchFile (scripted [answer 200 [] ''null'']) ''emails.csv''
          None None True (fresh (NewClient ''key''))) = Returns (None, None)"
proof -
  let ?a = "answer 200 [] ''{\"balance\":\"100\"}''"
  let ?n = "answer 200 [] ''null''"
  let ?w = "fresh (NewClient ''key'')"
  have opened: "\<And>script. OpenFile (scripted script) ''emails.csv'' = Contents ''a@b.com''"
    by (simp add: scripted_def)
  have url: "\<And>script. ParseURL (scripted script) (baseURL (client ?w) @ ''/verify/batch/upload'') = None"
    by (simp add: scripted_def)
  have trip_a: "\<forall>req. RoundTrip (scripted [?a]) (httpClient (client ?w)) (sent ?w) req = Answered ?a"
    by (simp add: scripted_def fresh_def)
  have trip_n: "\<forall>req. RoundTrip (scripted [?n]) (httpClient (client ?w)) (sent ?w) req = Answered ?n"
    by (simp add: scripted_def fresh_def)
  have code_a: "RespStatusCode ?a < 400" and read_a: "RespReadError ?a = None"
    by (simp_all add: answer_def)
  have code_n: "RespStatusCode ?n < 400" and read_n: "RespReadError ?n = None"
    by (simp_all add: answer_def)
  have json_a: "ParseJSON (scripted [?a]) (RespBody ?a) = Inr (JObject [(''balance'', JString ''100'')])"
    by (simp add: scripted_def answer_def scan_def)
  have json_n: "ParseJSON (scripted [?n]) (RespBody ?n) = Inr JNull"
    by (simp add: scripted_def answer_def scan_def)
  have data_a: "lacks_data (JObject [(''balance'', JString ''100'')])"
    by (simp add: lacks_data_def lower_char_def)
  have success_a: "success_is_bool (JObject [(''balance'', JString ''100'')])"
    by (simp add: success_is_bool_def lower_char_def)
  have data_n: "lacks_data JNull" and success_n: "success_is_bool JNull"
    by (simp_all add: lacks_data_def success_is_bool_def)
  from upload_without_data_returns_nil
      [OF opened url trip_a code_a read_a json_a data_a success_a, of None None True]
    upload_without_data_returns_nil
      [OF opened url trip_n code_n read_n json_n data_n success_n, of None None True]
    opened [of "[?a]"] json_a json_n
  show ?thesis by (simp add: answer_def)
qed




end
